theory Spec2Isabelle
  imports Main
begin

section \<open>Documents of the store\<close>

text \<open>
  The controllers of the authentication backend work on five collections of a document
  store: admins, projects, users, sessions and security logs. A collection is the list of
  its documents in insertion order, an ObjectId is the string that denotes it, and a date
  is its number of milliseconds since the epoch. The store itself is reliable in this
  development, so every call of a controller to it returns; the one exception is the section
  on \<open>deleteAllProjects\<close>, where a call may be rejected.
\<close>

type_synonym oid = string
type_synonym date = int

text \<open>
  A path of a stored document that holds a value, holds \<open>null\<close>, or was never written.
\<close>

datatype 'a field = Unset | Null | Val 'a

record admin =
  admin_id :: oid
  admin_name :: string
  admin_email :: string
  admin_password :: string
  refreshToken :: "string field"
  refreshTokenExpiry :: "date field"
  accessToken :: "string field"
  accessTokenExpiry :: "date field"

record securityConfig =
  userLimit :: nat
  userSessionLimit :: nat

record projectConfig =
  loginMethods :: "string \<rightharpoonup> bool"
  security :: securityConfig
  emailTemplates :: "string \<rightharpoonup> string"

record project =
  project_id :: oid
  projectName :: string
  owner :: oid
  appName :: string
  appEmail :: string
  config :: projectConfig
  projectKey :: string

record user =
  user_id :: oid
  user_projectId :: oid
  user_email :: string
  user_password :: "string option"
  isVerified :: bool

record session =
  session_id :: oid
  session_userId :: oid
  session_projectId :: oid

record log =
  log_id :: oid
  log_projectId :: oid
  log_userId :: "oid option"
  log_eventCode :: string
  log_createdAt :: date

record db =
  admins :: "admin list"
  projects :: "project list"
  users :: "user list"
  sessions :: "session list"
  logs :: "log list"

text \<open>
  The entries of \<open>responseType\<close> (constants) that the controllers below use, and the two
  ways a controller fails: with an \<open>ApiError\<close> it throws itself, or with the
  \<open>TypeError\<close> of the runtime when it reads a property of \<open>null\<close>.
\<close>

datatype responseType =
  SUCCESSFUL | CREATED | DELETED | SESSION_DELETED
  | REFRESH_TOKEN_INVALID | REFRESH_TOKEN_EXPIRED | ACCESS_TOKEN_INVALID | ACCESS_TOKEN_EXPIRED
  | NOT_FOUND | ALREADY_EXISTS | INVALID_FORMAT | VALIDATION_ERROR

datatype failure = ApiError responseType | TypeError

section \<open>Store operations\<close>

text \<open>
  \<open>deleteOne\<close> and \<open>updateOne\<close> act on the first document that matches, as
  \<open>findByIdAndDelete\<close>, \<open>findByIdAndUpdate\<close> and \<open>save\<close> do; \<open>deleteMany\<close> removes every
  document that matches; \<open>find\<close> of the list library is \<open>findOne\<close>.
\<close>

fun deleteOne :: "('a \<Rightarrow> bool) \<Rightarrow> 'a list \<Rightarrow> 'a list" where
  "deleteOne P [] = []"
| "deleteOne P (x # xs) = (if P x then xs else x # deleteOne P xs)"

fun updateOne :: "('a \<Rightarrow> bool) \<Rightarrow> ('a \<Rightarrow> 'a) \<Rightarrow> 'a list \<Rightarrow> 'a list" where
  "updateOne P f [] = []"
| "updateOne P f (x # xs) = (if P x then f x # xs else x # updateOne P f xs)"

definition deleteMany :: "('a \<Rightarrow> bool) \<Rightarrow> 'a list \<Rightarrow> 'a list" where
  "deleteMany P xs = filter (\<lambda>x. \<not> P x) xs"

definition Admin_findById :: "db \<Rightarrow> oid \<Rightarrow> admin option" where
  "Admin_findById s i = find (\<lambda>a. admin_id a = i) (admins s)"

definition Project_findById :: "db \<Rightarrow> oid \<Rightarrow> project option" where
  "Project_findById s i = find (\<lambda>p. project_id p = i) (projects s)"

definition User_findById :: "db \<Rightarrow> oid \<Rightarrow> user option" where
  "User_findById s i = find (\<lambda>u. user_id u = i) (users s)"

definition Project_findByIdAndDelete :: "oid \<Rightarrow> db \<Rightarrow> db" where
  "Project_findByIdAndDelete i s =
     s\<lparr>projects := deleteOne (\<lambda>p. project_id p = i) (projects s)\<rparr>"

definition User_deleteMany :: "oid \<Rightarrow> db \<Rightarrow> db" where
  "User_deleteMany i s = s\<lparr>users := deleteMany (\<lambda>u. user_projectId u = i) (users s)\<rparr>"

definition Session_deleteMany :: "oid \<Rightarrow> db \<Rightarrow> db" where
  "Session_deleteMany i s =
     s\<lparr>sessions := deleteMany (\<lambda>x. session_projectId x = i) (sessions s)\<rparr>"

definition Log_deleteMany :: "oid \<Rightarrow> db \<Rightarrow> db" where
  "Log_deleteMany i s = s\<lparr>logs := deleteMany (\<lambda>l. log_projectId l = i) (logs s)\<rparr>"

text \<open>
  A request value that JavaScript takes for false: \<open>undefined\<close> or the empty string.
\<close>

fun falsy :: "string option \<Rightarrow> bool" where
  "falsy None = True"
| "falsy (Some v) = (v = [])"

section \<open>Deleting a project\<close>

text \<open>
  \<open>deleteProject\<close> awaits four calls to the store, one after the other. The list
  \<open>deleteProjectSteps\<close> holds them in the order of the source, \<open>runSteps\<close> performs a
  list of calls, and the store after the first \<open>k\<close> calls is
  \<open>deleteProjectAfter k\<close>.
\<close>

definition deleteProjectSteps :: "oid \<Rightarrow> (db \<Rightarrow> db) list" where
  "deleteProjectSteps projectId =
     [Project_findByIdAndDelete projectId,
      User_deleteMany projectId,
      Session_deleteMany projectId,
      Log_deleteMany projectId]"

definition runSteps :: "(db \<Rightarrow> db) list \<Rightarrow> db \<Rightarrow> db" where
  "runSteps fs s = fold (\<lambda>f t. f t) fs s"

definition deleteProjectAfter :: "nat \<Rightarrow> oid \<Rightarrow> db \<Rightarrow> db" where
  "deleteProjectAfter k projectId s = runSteps (take k (deleteProjectSteps projectId)) s"

definition deleteProject :: "db \<Rightarrow> string option \<Rightarrow> failure + db" where
  "deleteProject s projectId =
     (if falsy projectId then Inl (ApiError INVALID_FORMAT)
      else Inr (runSteps (deleteProjectSteps (the projectId)) s))"

section \<open>Deleting all projects of an admin\<close>

text \<open>
  \<open>deleteAllProjects\<close> reads the ids of the projects the admin owns and hands each to the
  callback of \<open>forEach\<close>. The callback is an async function: \<open>forEach\<close> calls it, drops the
  promise it returns and goes on, and the callback itself stops at its first \<open>await\<close>. When
  \<open>forEach\<close> returns, no call to the store has completed, and the handler sends its
  response. The result is that response, the store as it is when the response is sent, and
  the ids whose cascades are still to run, in order.

  \<open>settle\<close> runs these cascades after the response. \<open>failsAt p = Some k\<close> says that the
  cascade of project \<open>p\<close> is rejected after \<open>k\<close> of its calls: the promise that carries the
  rejection is the dropped one, so the failure reaches no caller and the other cascades go on.
\<close>

definition Project_idsOwnedBy :: "db \<Rightarrow> oid \<Rightarrow> oid list" where
  "Project_idsOwnedBy s adminId = map project_id (filter (\<lambda>p. owner p = adminId) (projects s))"

definition deleteAllProjects :: "db \<Rightarrow> oid \<Rightarrow> responseType \<times> db \<times> oid list" where
  "deleteAllProjects s adminId = (DELETED, s, Project_idsOwnedBy s adminId)"

fun settle :: "(oid \<Rightarrow> nat option) \<Rightarrow> oid list \<Rightarrow> db \<Rightarrow> db" where
  "settle failsAt [] s = s"
| "settle failsAt (p # ps) s =
     settle failsAt ps
       (case failsAt p of
          None \<Rightarrow> runSteps (deleteProjectSteps p) s
        | Some k \<Rightarrow> deleteProjectAfter k p s)"

section \<open>Users on the admin console\<close>

text \<open>
  Both handlers run behind the middleware that validates the project of the request and
  read its id into \<open>projectId\<close>. \<open>select("-password")\<close> leaves the password out of the
  document that is returned, and the \<open>$project\<close> stage of the aggregation keeps the id and
  the user id of a session.
\<close>

record sessionView =
  view_id :: oid
  view_userId :: oid

record userDetails =
  details_user :: user
  sessionCount :: nat
  details_sessions :: "sessionView list"

definition getUserFromConsole :: "db \<Rightarrow> oid \<Rightarrow> string option \<Rightarrow> failure + userDetails" where
  "getUserFromConsole s projectId userId =
     (if falsy userId then Inl (ApiError NOT_FOUND)
      else
        (case User_findById s (the userId) of
           None \<Rightarrow> Inl (ApiError NOT_FOUND)
         | Some userFromDB \<Rightarrow>
             (let sessionsFromDB =
                    map (\<lambda>x. \<lparr>view_id = session_id x, view_userId = session_userId x\<rparr>)
                      (filter (\<lambda>x. session_userId x = the userId) (sessions s))
              in Inr \<lparr>details_user = userFromDB\<lparr>user_password := None\<rparr>,
                      sessionCount = length sessionsFromDB,
                      details_sessions = sessionsFromDB\<rparr>)))"

definition verifyUserFromConsole ::
  "db \<Rightarrow> oid \<Rightarrow> string option \<Rightarrow> string option \<Rightarrow> failure + db" where
  "verifyUserFromConsole s projectId userId email =
     (if falsy userId \<and> falsy email then Inl (ApiError NOT_FOUND)
      else
        (case find (\<lambda>u. (falsy userId \<or> user_id u = the userId)
                         \<and> (falsy email \<or> user_email u = the email)) (users s) of
           None \<Rightarrow> Inl (ApiError NOT_FOUND)
         | Some userFromDB \<Rightarrow>
             Inr (s\<lparr>users := updateOne (\<lambda>u. user_id u = user_id userFromDB)
                                (\<lambda>u. u\<lparr>isVerified := True\<rparr>) (users s)\<rparr>)))"

section \<open>The admin's session\<close>

text \<open>
  \<open>replaceBearer\<close> is \<open>replace("Bearer ", "")\<close>: the first occurrence is removed.
  \<open>presentedRefreshToken\<close> is the token read from the authorization header or, when that
  gives nothing, from the cookie. \<open>jsLess\<close> is the comparison \<open>stored < new Date()\<close> of
  JavaScript: \<open>null\<close> counts as 0 and \<open>undefined\<close> compares false.
\<close>

fun replaceBearer :: "string \<Rightarrow> string" where
  "replaceBearer [] = []"
| "replaceBearer (c # cs) =
     (if take 7 (c # cs) = ''Bearer '' then drop 7 (c # cs) else c # replaceBearer cs)"

definition presentedRefreshToken :: "string option \<Rightarrow> string option \<Rightarrow> string option" where
  "presentedRefreshToken authorization cookie =
     (case authorization of
        None \<Rightarrow> cookie
      | Some h \<Rightarrow> if replaceBearer h = [] then cookie else Some (replaceBearer h))"

fun jsLess :: "date field \<Rightarrow> date \<Rightarrow> bool" where
  "jsLess Unset now = False"
| "jsLess Null now = (0 < now)"
| "jsLess (Val d) now = (d < now)"

text \<open>
  \<open>jwt_decode\<close> is \<open>jwt.decode\<close>: \<open>None\<close> for \<open>null\<close>, otherwise the \<open>adminId\<close> of the
  payload, if it has one. \<open>generateToken\<close> signs the admin's id and email. The clock is read
  twice, for the comparison (\<open>now\<close>) and for the new expiry (\<open>later\<close>). The result is the
  new access token and the store.
\<close>

definition refreshAccessToken ::
  "(string \<Rightarrow> string option option) \<Rightarrow> (oid \<Rightarrow> string \<Rightarrow> string) \<Rightarrow> date \<Rightarrow> date
     \<Rightarrow> db \<Rightarrow> string option \<Rightarrow> string option \<Rightarrow> failure + (string \<times> db)" where
  "refreshAccessToken jwt_decode generateToken now later s authorization cookie =
     (let refreshToken = presentedRefreshToken authorization cookie in
      if falsy refreshToken then Inl (ApiError REFRESH_TOKEN_INVALID)
      else
        (case jwt_decode (the refreshToken) of
           None \<Rightarrow> Inl (ApiError REFRESH_TOKEN_INVALID)
         | Some decodedToken \<Rightarrow>
             if falsy decodedToken then Inl (ApiError REFRESH_TOKEN_INVALID)
             else
               (case Admin_findById s (the decodedToken) of
                  None \<Rightarrow> Inl (ApiError NOT_FOUND)
                | Some adminFromDB \<Rightarrow>
                    if jsLess (refreshTokenExpiry adminFromDB) now
                    then Inl (ApiError REFRESH_TOKEN_EXPIRED)
                    else
                      (let token = generateToken (the decodedToken) (admin_email adminFromDB);
                           expiry = later + 24 * 60 * 60 * 1000
                       in Inr (token,
                            s\<lparr>admins := updateOne (\<lambda>a. admin_id a = admin_id adminFromDB)
                                (\<lambda>a. a\<lparr>accessToken := Val token,
                                        accessTokenExpiry := Val expiry\<rparr>)
                                (admins s)\<rparr>)))))"

definition deleteLoginSession :: "db \<Rightarrow> oid \<Rightarrow> db" where
  "deleteLoginSession s adminId =
     s\<lparr>admins := updateOne (\<lambda>a. admin_id a = adminId)
         (\<lambda>a. a\<lparr>refreshToken := Null, refreshTokenExpiry := Null,
                 accessToken := Null, accessTokenExpiry := Null\<rparr>)
         (admins s)\<rparr>"

text \<open>
  Modelled from the spec: the check of a presented access token against the admin record,
  which the middleware \<open>authenticateAdmin\<close> performs and which is not among the sources.
  The spec (4.1, 4.3 and 9) has verification read the stored expiry on each attempt: after
  the token itself is verified (\<open>jwt_verify\<close>, \<open>None\<close> for a bad signature or a passed
  self-encoded expiry) and the record loaded, the attempt fails unless a stored expiry exists
  that the current time has not reached.
\<close>

definition authenticateAdmin ::
  "(string \<Rightarrow> oid option) \<Rightarrow> date \<Rightarrow> db \<Rightarrow> string \<Rightarrow> failure + admin" where
  "authenticateAdmin jwt_verify now s token =
     (case jwt_verify token of
        None \<Rightarrow> Inl (ApiError ACCESS_TOKEN_INVALID)
      | Some adminId \<Rightarrow>
          (case Admin_findById s adminId of
             None \<Rightarrow> Inl (ApiError NOT_FOUND)
           | Some a \<Rightarrow>
               (case accessTokenExpiry a of
                  Val e \<Rightarrow> if now < e then Inr a else Inl (ApiError ACCESS_TOKEN_EXPIRED)
                | Null \<Rightarrow> Inl (ApiError ACCESS_TOKEN_EXPIRED)
                | Unset \<Rightarrow> Inl (ApiError ACCESS_TOKEN_EXPIRED))))"

section \<open>Creating a project\<close>

text \<open>
  The schemas \<open>ZProjectName\<close>, \<open>ZAppName\<close> and \<open>ZEmail\<close> and the validator of the config
  object are collaborators of the controller; \<open>validateProjectConfig\<close> throws the failure
  it returns, if any. \<open>trimmedEmpty v\<close> is \<open>!v.trim()\<close> on the ASCII white space.
  \<open>checkCreateBody\<close> is the part of \<open>createProject\<close> that comes before its first call to
  the store.
\<close>

record validators =
  ZProjectName :: "string \<Rightarrow> bool"
  ZAppName :: "string \<Rightarrow> bool"
  ZEmail :: "string \<Rightarrow> bool"
  validateProjectConfig :: "projectConfig \<Rightarrow> failure option"

record createBody =
  body_projectName :: string
  body_config :: "projectConfig option"
  body_appName :: string
  body_appEmail :: string

definition whiteSpace :: "char \<Rightarrow> bool" where
  "whiteSpace c = (c \<in> set [CHR 0x09, CHR 0x0A, CHR 0x0B, CHR 0x0C, CHR 0x0D, CHR 0x20])"

definition trimmedEmpty :: "string \<Rightarrow> bool" where
  "trimmedEmpty v = list_all whiteSpace v"

definition checkCreateBody :: "validators \<Rightarrow> createBody \<Rightarrow> failure option" where
  "checkCreateBody V body =
     (if trimmedEmpty (body_projectName body) \<or> trimmedEmpty (body_appName body)
         \<or> trimmedEmpty (body_appEmail body)
      then Some (ApiError NOT_FOUND)
      else
        (case body_config body of
           None \<Rightarrow> Some (ApiError INVALID_FORMAT)
         | Some c \<Rightarrow>
             if \<not> ZProjectName V (body_projectName body) then Some (ApiError INVALID_FORMAT)
             else if \<not> ZAppName V (body_appName body) then Some (ApiError INVALID_FORMAT)
             else if \<not> ZEmail V (body_appEmail body) then Some (ApiError INVALID_FORMAT)
             else validateProjectConfig V c))"

text \<open>
  \<open>sign\<close> is \<open>jwt.sign\<close> on the project's id and owner, \<open>newId\<close> the id the store gives
  the created document and \<open>temporaryKey\<close> the placeholder key it is created with. The
  result is the created project and the store.
\<close>

definition createProject ::
  "validators \<Rightarrow> (oid \<Rightarrow> oid \<Rightarrow> string) \<Rightarrow> oid \<Rightarrow> string \<Rightarrow> db \<Rightarrow> oid \<Rightarrow> createBody
     \<Rightarrow> failure + (project \<times> db)" where
  "createProject V sign newId temporaryKey s adminId body =
     (case checkCreateBody V body of
        Some e \<Rightarrow> Inl e
      | None \<Rightarrow>
          (case find (\<lambda>p. projectName p = body_projectName body \<and> owner p = adminId)
                  (projects s) of
             Some projectFromDB \<Rightarrow> Inl (ApiError ALREADY_EXISTS)
           | None \<Rightarrow>
               (let createdProject =
                      \<lparr>project_id = newId, projectName = body_projectName body,
                       owner = adminId, appName = body_appName body,
                       appEmail = body_appEmail body, config = the (body_config body),
                       projectKey = temporaryKey\<rparr>;
                    key = sign (project_id createdProject) (owner createdProject)
                in Inr (createdProject\<lparr>projectKey := key\<rparr>,
                     s\<lparr>projects := updateOne (\<lambda>p. project_id p = project_id createdProject)
                         (\<lambda>p. p\<lparr>projectKey := key\<rparr>)
                         (projects s @ [createdProject])\<rparr>))))"

definition uniqueNames :: "db \<Rightarrow> bool" where
  "uniqueNames s = distinct (map (\<lambda>p. (owner p, projectName p)) (projects s))"

section \<open>Queries on the security log\<close>

text \<open>
  The three controllers read the paging values and the dates from the body of the request
  (a date is taken as its number of milliseconds), build an object for \<open>validateLogInput\<close>
  and, when it is accepted, a query for \<open>securityLog\<close>. In the object for the validator a
  key that the controller does not write is \<open>None\<close>. The key \<open>userId\<close> is written by the
  two controllers that query by user, also when its value is \<open>undefined\<close> (\<open>Some None\<close>),
  and is not written by the query by event code (\<open>None\<close>). The validator and the query
  are arguments of the controllers.
\<close>

record logBody =
  body_page :: "int option"
  body_itemLimit :: "int option"
  body_startDate :: "date option"
  body_endDate :: "date option"
  body_userId :: "string option"

record logInput =
  in_eventCode :: "string option"
  in_page :: "int option"
  in_itemLimit :: "int option"
  in_startDate :: "date option"
  in_endDate :: "date option"
  in_projectId :: "oid option"
  in_userId :: "string option option"

record logQuery =
  q_projectId :: oid
  q_userId :: "string option"
  q_eventCode :: "string option"
  q_page :: "int option"
  q_queryItemCount :: "int option"
  q_startDate :: "date option"
  q_endDate :: "date option"

definition getLogsByUserId ::
  "(logInput \<Rightarrow> bool) \<Rightarrow> (logQuery \<Rightarrow> 'page) \<Rightarrow> oid \<Rightarrow> string option \<Rightarrow> logBody
     \<Rightarrow> failure + 'page" where
  "getLogsByUserId validateLogInput getLogsByUserID projectId reqUserId body =
     (let userId = (if falsy reqUserId then body_userId body else reqUserId) in
      if \<not> validateLogInput
             \<lparr>in_eventCode = None, in_page = body_page body,
              in_itemLimit = body_itemLimit body, in_startDate = body_startDate body,
              in_endDate = body_endDate body, in_projectId = None,
              in_userId = Some userId\<rparr>
      then Inl (ApiError VALIDATION_ERROR)
      else Inr (getLogsByUserID
             \<lparr>q_projectId = projectId, q_userId = userId, q_eventCode = None,
              q_page = body_page body, q_queryItemCount = body_itemLimit body,
              q_startDate = body_startDate body, q_endDate = body_endDate body\<rparr>))"

definition getLogsByEventCode ::
  "(logInput \<Rightarrow> bool) \<Rightarrow> (logQuery \<Rightarrow> 'page) \<Rightarrow> oid \<Rightarrow> string option \<Rightarrow> logBody
     \<Rightarrow> failure + 'page" where
  "getLogsByEventCode validateLogInput getAllLogsByEvent projectId eventCode body =
     (if falsy eventCode then Inl (ApiError NOT_FOUND)
      else if \<not> validateLogInput
             \<lparr>in_eventCode = eventCode, in_page = body_page body,
              in_itemLimit = body_itemLimit body, in_startDate = body_startDate body,
              in_endDate = body_endDate body, in_projectId = Some projectId,
              in_userId = None\<rparr>
      then Inl (ApiError VALIDATION_ERROR)
      else Inr (getAllLogsByEvent
             \<lparr>q_projectId = projectId, q_userId = None, q_eventCode = eventCode,
              q_page = body_page body, q_queryItemCount = body_itemLimit body,
              q_startDate = body_startDate body, q_endDate = body_endDate body\<rparr>))"

definition getUserLogsByEventCode ::
  "(logInput \<Rightarrow> bool) \<Rightarrow> (logQuery \<Rightarrow> 'page) \<Rightarrow> oid \<Rightarrow> string option \<Rightarrow> string option
     \<Rightarrow> logBody \<Rightarrow> failure + 'page" where
  "getUserLogsByEventCode validateLogInput getUserLogsByEvent projectId userId eventCode body =
     (if falsy eventCode then Inl (ApiError NOT_FOUND)
      else if \<not> validateLogInput
             \<lparr>in_eventCode = eventCode, in_page = body_page body,
              in_itemLimit = body_itemLimit body, in_startDate = body_startDate body,
              in_endDate = body_endDate body, in_projectId = Some projectId,
              in_userId = Some userId\<rparr>
      then Inl (ApiError VALIDATION_ERROR)
      else Inr (getUserLogsByEvent
             \<lparr>q_projectId = projectId, q_userId = userId, q_eventCode = eventCode,
              q_page = body_page body, q_queryItemCount = body_itemLimit body,
              q_startDate = body_startDate body, q_endDate = body_endDate body\<rparr>))"

text \<open>
  Modelled from the spec: \<open>validateLogInput\<close> of \<open>schema/validation\<close>, which is not among
  the sources. By sections 4.4 and 7 of the spec a query fails with a \<open>ValidationError\<close>
  on an event code that is not recognized, on an absent user id in a query by user, on a
  page or page size that is not positive, and on an end date before the start date. So the
  validator accepts an object when an event code it holds is one of the enumeration
  \<open>EventCodes\<close>, a key \<open>userId\<close> it holds has a value that is not empty, page and item
  limit are there and positive, and the dates, when both are there, are in order.
\<close>

definition validRange :: "date option \<Rightarrow> date option \<Rightarrow> bool" where
  "validRange startDate endDate =
     (case startDate of
        None \<Rightarrow> True
      | Some a \<Rightarrow> (case endDate of None \<Rightarrow> True | Some b \<Rightarrow> a \<le> b))"

definition validateLogInput :: "string list \<Rightarrow> logInput \<Rightarrow> bool" where
  "validateLogInput EventCodes i =
     ((case in_eventCode i of None \<Rightarrow> True | Some e \<Rightarrow> e \<in> set EventCodes)
      \<and> (case in_userId i of None \<Rightarrow> True | Some u \<Rightarrow> \<not> falsy u)
      \<and> (case in_page i of None \<Rightarrow> False | Some n \<Rightarrow> 0 < n)
      \<and> (case in_itemLimit i of None \<Rightarrow> False | Some n \<Rightarrow> 0 < n)
      \<and> validRange (in_startDate i) (in_endDate i))"

text \<open>
  Modelled from the spec: the queries \<open>getLogsByUserID\<close>, \<open>getAllLogsByEvent\<close> and
  \<open>getUserLogsByEvent\<close> of \<open>features/security-log\<close>, which is not among the sources.
  Section 4.4 of the spec gives them one contract: the events of the project that pass
  the filter of the query (the user, the event code, or both, and the inclusive bounds on
  the time), ordered by time descending, cut into pages that are counted from 1 and whose
  size is bounded by a configured maximum. A query without page or item limit has no page.
\<close>

definition inRange :: "date option \<Rightarrow> date option \<Rightarrow> date \<Rightarrow> bool" where
  "inRange startDate endDate t =
     ((case startDate of None \<Rightarrow> True | Some a \<Rightarrow> a \<le> t)
      \<and> (case endDate of None \<Rightarrow> True | Some b \<Rightarrow> t \<le> b))"

definition matchesQuery :: "logQuery \<Rightarrow> log \<Rightarrow> bool" where
  "matchesQuery q l =
     (log_projectId l = q_projectId q
      \<and> (case q_userId q of None \<Rightarrow> True | Some u \<Rightarrow> log_userId l = Some u)
      \<and> (case q_eventCode q of None \<Rightarrow> True | Some e \<Rightarrow> log_eventCode l = e)
      \<and> inRange (q_startDate q) (q_endDate q) (log_createdAt l))"

definition queryLogs :: "nat \<Rightarrow> log list \<Rightarrow> logQuery \<Rightarrow> log list" where
  "queryLogs maxItemLimit ls q =
     (case q_page q of
        None \<Rightarrow> []
      | Some page \<Rightarrow>
          (case q_queryItemCount q of
             None \<Rightarrow> []
           | Some itemLimit \<Rightarrow>
               (let matching = rev (sort_key log_createdAt (filter (matchesQuery q) ls));
                    size = min (nat itemLimit) maxItemLimit
                in take size (drop ((nat page - 1) * size) matching))))"

section \<open>Resetting parts of the config\<close>

text \<open>
  \<open>EmailTemplateNames\<close> are the values of the enumeration \<open>EmailTemplateName\<close>. Both
  handlers read the project with \<open>findById\<close> and assign through \<open>projectFromDB!\<close>: when
  the project is absent the assignment reads \<open>config\<close> of \<open>null\<close>, which is the
  \<open>TypeError\<close> of the runtime. \<open>save\<close> writes the path that was assigned.
\<close>

definition resetEmailTemplateToDefault ::
  "string list \<Rightarrow> db \<Rightarrow> oid \<Rightarrow> string \<Rightarrow> failure + db" where
  "resetEmailTemplateToDefault EmailTemplateNames s projectId emailTemplate =
     (if emailTemplate \<notin> set EmailTemplateNames then Inl (ApiError INVALID_FORMAT)
      else
        (case Project_findById s projectId of
           None \<Rightarrow> Inl TypeError
         | Some projectFromDB \<Rightarrow>
             (let emailTemplatesObject = emailTemplates (config projectFromDB);
                  updatedEmailTemplates = emailTemplatesObject(emailTemplate := None)
              in Inr (s\<lparr>projects := updateOne (\<lambda>p. project_id p = project_id projectFromDB)
                          (\<lambda>p. p\<lparr>config := (config p)\<lparr>emailTemplates := updatedEmailTemplates\<rparr>\<rparr>)
                          (projects s)\<rparr>))))"

definition resetSecuritySettingToDefault :: "db \<Rightarrow> oid \<Rightarrow> failure + db" where
  "resetSecuritySettingToDefault s projectId =
     (case Project_findById s projectId of
        None \<Rightarrow> Inl TypeError
      | Some projectFromDB \<Rightarrow>
          Inr (s\<lparr>projects := updateOne (\<lambda>p. project_id p = project_id projectFromDB)
                   (\<lambda>p. p\<lparr>config := (config p)\<lparr>security :=
                            \<lparr>userLimit = 1000, userSessionLimit = 5\<rparr>\<rparr>\<rparr>)
                   (projects s)\<rparr>))"

section \<open>A store with two tenants\<close>

text \<open>
  Two admins own one project each, both named \<open>shop\<close>; each project has one user with a
  session and a log entry. Admin \<open>a1\<close> is logged in; project \<open>p1\<close> overrides two email
  templates.
\<close>

definition admin_a1 :: admin where
  "admin_a1 =
     \<lparr>admin_id = ''a1'', admin_name = ''Ann'', admin_email = ''ann@a1.example'',
      admin_password = ''h1'', refreshToken = Val ''r1'', refreshTokenExpiry = Val 5000,
      accessToken = Val ''t1'', accessTokenExpiry = Val 3000\<rparr>"

definition admin_a2 :: admin where
  "admin_a2 =
     \<lparr>admin_id = ''a2'', admin_name = ''Bob'', admin_email = ''bob@a2.example'',
      admin_password = ''h2'', refreshToken = Unset, refreshTokenExpiry = Unset,
      accessToken = Unset, accessTokenExpiry = Unset\<rparr>"

definition config_p1 :: projectConfig where
  "config_p1 =
     \<lparr>loginMethods = [''emailPassword'' \<mapsto> True],
      security = \<lparr>userLimit = 20, userSessionLimit = 2\<rparr>,
      emailTemplates = [''welcome'' \<mapsto> ''Hello'', ''resetPassword'' \<mapsto> ''Reset'']\<rparr>"

definition project_p1 :: project where
  "project_p1 =
     \<lparr>project_id = ''p1'', projectName = ''shop'', owner = ''a1'', appName = ''Shop'',
      appEmail = ''shop@a1.example'', config = config_p1, projectKey = ''k1''\<rparr>"

definition project_p2 :: project where
  "project_p2 =
     \<lparr>project_id = ''p2'', projectName = ''shop'', owner = ''a2'', appName = ''Store'',
      appEmail = ''shop@a2.example'',
      config = \<lparr>loginMethods = Map.empty,
                security = \<lparr>userLimit = 1000, userSessionLimit = 5\<rparr>,
                emailTemplates = Map.empty\<rparr>,
      projectKey = ''k2''\<rparr>"

definition user_u1 :: user where
  "user_u1 =
     \<lparr>user_id = ''u1'', user_projectId = ''p1'', user_email = ''carl@x.example'',
      user_password = Some ''h3'', isVerified = False\<rparr>"

definition user_u2 :: user where
  "user_u2 =
     \<lparr>user_id = ''u2'', user_projectId = ''p2'', user_email = ''dora@x.example'',
      user_password = Some ''h4'', isVerified = False\<rparr>"

definition session_s1 :: session where
  "session_s1 = \<lparr>session_id = ''s1'', session_userId = ''u1'', session_projectId = ''p1''\<rparr>"

definition session_s2 :: session where
  "session_s2 = \<lparr>session_id = ''s2'', session_userId = ''u2'', session_projectId = ''p2''\<rparr>"

definition log_l1 :: log where
  "log_l1 =
     \<lparr>log_id = ''l1'', log_projectId = ''p1'', log_userId = Some ''u1'',
      log_eventCode = ''PASSWORD_LOGIN'', log_createdAt = 100\<rparr>"

definition log_l2 :: log where
  "log_l2 =
     \<lparr>log_id = ''l2'', log_projectId = ''p2'', log_userId = None,
      log_eventCode = ''PASSWORD_LOGIN'', log_createdAt = 200\<rparr>"

definition two_tenants :: db where
  "two_tenants =
     \<lparr>admins = [admin_a1, admin_a2], projects = [project_p1, project_p2],
      users = [user_u1, user_u2], sessions = [session_s1, session_s2],
      logs = [log_l1, log_l2]\<rparr>"

text \<open>
  A decoder and a token generator for the examples: the token \<open>r1\<close> names admin \<open>a1\<close>,
  \<open>r9\<close> names an admin that does not exist, \<open>rx\<close> has a payload without an admin id, and
  nothing else decodes.
\<close>

definition decode_demo :: "string \<Rightarrow> string option option" where
  "decode_demo t =
     (if t = ''r1'' then Some (Some ''a1'')
      else if t = ''r9'' then Some (Some ''a9'')
      else if t = ''rx'' then Some None
      else None)"

definition generate_demo :: "oid \<Rightarrow> string \<Rightarrow> string" where
  "generate_demo a e = ''token-'' @ a"

text \<open>
  A verifier of access tokens for the examples: the token \<open>t1\<close> is a well-signed,
  unexpired token of admin \<open>a1\<close>.
\<close>

definition verify_demo :: "string \<Rightarrow> oid option" where
  "verify_demo t = (if t = ''t1'' then Some ''a1'' else None)"

text \<open>
  Validators, a signer and a request body for the examples: names of three characters or
  more and addresses with an \<open>@\<close> are well formed, and every config is accepted.
\<close>

definition validators_demo :: validators where
  "validators_demo =
     \<lparr>ZProjectName = (\<lambda>v. 3 \<le> length v), ZAppName = (\<lambda>v. 3 \<le> length v),
      ZEmail = (\<lambda>v. CHR ''@'' \<in> set v), validateProjectConfig = (\<lambda>c. None)\<rparr>"

definition sign_demo :: "oid \<Rightarrow> oid \<Rightarrow> string" where
  "sign_demo projectId ownerId = ''key-'' @ projectId @ ''-'' @ ownerId"

definition body_shop :: createBody where
  "body_shop =
     \<lparr>body_projectName = ''shop'', body_config = Some config_p1, body_appName = ''Shop'',
      body_appEmail = ''shop@a3.example''\<rparr>"

text \<open>
  Event codes, a third log entry (an older login of user \<open>u1\<close>) and a request body for the
  examples.
\<close>

definition EventCodes_demo :: "string list" where
  "EventCodes_demo = [''PASSWORD_LOGIN'', ''LOGOUT'']"

definition log_l0 :: log where
  "log_l0 =
     \<lparr>log_id = ''l0'', log_projectId = ''p1'', log_userId = Some ''u1'',
      log_eventCode = ''PASSWORD_LOGIN'', log_createdAt = 50\<rparr>"

definition logged_store :: db where
  "logged_store = two_tenants\<lparr>logs := [log_l0, log_l1, log_l2]\<rparr>"

definition body_page1 :: logBody where
  "body_page1 =
     \<lparr>body_page = Some 1, body_itemLimit = Some 10, body_startDate = None,
      body_endDate = None, body_userId = None\<rparr>"

text \<open>
  Names of email templates for the examples.
\<close>

definition EmailTemplateNames_demo :: "string list" where
  "EmailTemplateNames_demo = [''welcome'', ''resetPassword'', ''verifyEmail'']"

lemmas two_tenants_defs =
  two_tenants_def admin_a1_def admin_a2_def project_p1_def project_p2_def config_p1_def
  user_u1_def user_u2_def session_s1_def session_s2_def log_l1_def log_l2_def

section \<open>Facts about the store operations\<close>

lemma find_deleteOne_key:
  "distinct (map k xs) \<Longrightarrow> find (\<lambda>d. k d = i) (deleteOne (\<lambda>d. k d = i) xs) = None"
proof (induction xs)
  case Nil
  show ?case by simp
next
  case (Cons a xs)
  show ?case
  proof (cases "k a = i")
    case True
    with Cons.prems have "\<forall>x\<in>set xs. k x \<noteq> i" by (auto simp: image_iff)
    then have "find (\<lambda>d. k d = i) xs = None" by (simp add: find_None_iff)
    with True show ?thesis by simp
  next
    case False
    with Cons show ?thesis by simp
  qed
qed

lemma deleteOne_absent: "find P xs = None \<Longrightarrow> deleteOne P xs = xs"
  by (induction xs) (auto split: if_splits)

lemma deleteMany_twice: "deleteMany P (deleteMany P xs) = deleteMany P xs"
  by (simp add: deleteMany_def)

lemma runSteps_deleteProject:
  "runSteps (deleteProjectSteps p) s =
     \<lparr>admins = admins s,
      projects = deleteOne (\<lambda>d. project_id d = p) (projects s),
      users = deleteMany (\<lambda>u. user_projectId u = p) (users s),
      sessions = deleteMany (\<lambda>x. session_projectId x = p) (sessions s),
      logs = deleteMany (\<lambda>l. log_projectId l = p) (logs s)\<rparr>"
  by (simp add: runSteps_def deleteProjectSteps_def Project_findByIdAndDelete_def
      User_deleteMany_def Session_deleteMany_def Log_deleteMany_def)

lemma deleteProjectAfter_1:
  "deleteProjectAfter (Suc 0) p s = Project_findByIdAndDelete p s"
  by (simp add: deleteProjectAfter_def deleteProjectSteps_def runSteps_def)

lemma deleteProjectAfter_2:
  "deleteProjectAfter 2 p s = User_deleteMany p (Project_findByIdAndDelete p s)"
  by (simp add: deleteProjectAfter_def deleteProjectSteps_def runSteps_def numeral_2_eq_2)

lemma deleteProjectAfter_3:
  "deleteProjectAfter 3 p s =
     Session_deleteMany p (User_deleteMany p (Project_findByIdAndDelete p s))"
  by (simp add: deleteProjectAfter_def deleteProjectSteps_def runSteps_def numeral_3_eq_3)

lemma deleteProjectAfter_4:
  "deleteProjectAfter 4 p s = runSteps (deleteProjectSteps p) s"
  by (simp add: deleteProjectAfter_def deleteProjectSteps_def)

lemma find_updateOne_key:
  assumes "\<And>x. k (f x) = k x"
  shows "find (\<lambda>d. k d = j) (updateOne (\<lambda>d. k d = i) f xs) =
           (if j = i then map_option f (find (\<lambda>d. k d = i) xs) else find (\<lambda>d. k d = j) xs)"
  by (induction xs) (auto simp: assms)

lemma Admin_findById_id: "Admin_findById s a = Some adm \<Longrightarrow> admin_id adm = a"
  by (auto simp: Admin_findById_def find_Some_iff)

lemma map_updateOne_same:
  "(\<And>x. g (f x) = g x) \<Longrightarrow> map g (updateOne P f xs) = map g xs"
  by (induction xs) auto

lemma Project_findById_id: "Project_findById s i = Some p \<Longrightarrow> project_id p = i"
  by (auto simp: Project_findById_def find_Some_iff)

lemma Project_findById_update:
  assumes "\<And>x. project_id (f x) = project_id x"
  shows "Project_findById (s\<lparr>projects := updateOne (\<lambda>d. project_id d = i) f (projects s)\<rparr>) j =
           (if j = i then map_option f (Project_findById s i) else Project_findById s j)"
  using assms by (simp add: Project_findById_def find_updateOne_key)

lemma queryLogs_no_rows:
  "\<forall>l\<in>set ls. \<not> matchesQuery q l \<Longrightarrow> queryLogs maxItemLimit ls q = []"
proof -
  assume "\<forall>l\<in>set ls. \<not> matchesQuery q l"
  then have "filter (matchesQuery q) ls = []"
    by (simp add: filter_empty_conv)
  then show ?thesis
    by (simp add: queryLogs_def split: option.splits)
qed

section \<open>The cascade of deleteProject\<close>

text \<open>
  C1. For every project id \<open>p\<close> (a non-empty request parameter) and every store whose
  project ids are unique, \<open>deleteProject\<close> succeeds; in the store it leaves, no Project
  has the id \<open>p\<close> and no User, Session or Log has the projectId \<open>p\<close>; and
  \<open>deleteProject\<close> on that store succeeds again and leaves it as it is. The store \<open>s\<close> is
  arbitrary, so a tenant that an earlier run deleted only in part is covered: the run
  succeeds and deletes what remains.
\<close>

theorem deleteProject_complete_idempotent:
  assumes "p \<noteq> []" and "distinct (map project_id (projects s))"
  shows "\<exists>s'. deleteProject s (Some p) = Inr s'
           \<and> Project_findById s' p = None
           \<and> (\<forall>u\<in>set (users s'). user_projectId u \<noteq> p)
           \<and> (\<forall>x\<in>set (sessions s'). session_projectId x \<noteq> p)
           \<and> (\<forall>l\<in>set (logs s'). log_projectId l \<noteq> p)
           \<and> deleteProject s' (Some p) = Inr s'"
proof -
  define s' where "s' = runSteps (deleteProjectSteps p) s"
  have run: "deleteProject s (Some p) = Inr s'"
    using assms(1) by (simp add: deleteProject_def s'_def)
  have gone: "Project_findById s' p = None"
    using assms(2)
    by (simp add: s'_def runSteps_deleteProject Project_findById_def find_deleteOne_key)
  have kids: "(\<forall>u\<in>set (users s'). user_projectId u \<noteq> p)
      \<and> (\<forall>x\<in>set (sessions s'). session_projectId x \<noteq> p)
      \<and> (\<forall>l\<in>set (logs s'). log_projectId l \<noteq> p)"
    by (simp add: s'_def runSteps_deleteProject deleteMany_def)
  have "runSteps (deleteProjectSteps p) s' = s'"
    using gone
    by (simp add: runSteps_deleteProject [of p s'] Project_findById_def deleteOne_absent)
       (simp add: s'_def runSteps_deleteProject deleteMany_twice)
  then have again: "deleteProject s' (Some p) = Inr s'"
    using assms(1) by (simp add: deleteProject_def)
  from run gone kids again show ?thesis by blast
qed

theorem deleteProject_complete_idempotent_witness:
  "''p1'' \<noteq> [] \<and> distinct (map project_id (projects two_tenants))
   \<and> (\<exists>s'. deleteProject two_tenants (Some ''p1'') = Inr s'
           \<and> Project_findById s' ''p1'' = None
           \<and> (\<forall>u\<in>set (users s'). user_projectId u \<noteq> ''p1'')
           \<and> (\<forall>x\<in>set (sessions s'). session_projectId x \<noteq> ''p1'')
           \<and> (\<forall>l\<in>set (logs s'). log_projectId l \<noteq> ''p1'')
           \<and> deleteProject s' (Some ''p1'') = Inr s')"
proof -
  have h1: "''p1'' \<noteq> []" by simp
  have h2: "distinct (map project_id (projects two_tenants))"
    by (simp add: two_tenants_defs)
  from h1 h2 deleteProject_complete_idempotent [OF h1 h2] show ?thesis by blast
qed

text \<open>
  C2, as the spec states it, asks that the Project record be deleted last, so that no
  state reached by stopping the cascade partway holds a User, Session or Log whose
  projectId names a Project that is already gone. It fails: after the first call of
  \<open>deleteProject\<close> on the store of two tenants, project \<open>p1\<close> is gone while its user,
  its session and its log entry are all still there.
\<close>

theorem deleteProject_order_counterexample:
  "Project_findById (deleteProjectAfter 1 ''p1'' two_tenants) ''p1'' = None
   \<and> user_u1 \<in> set (users (deleteProjectAfter 1 ''p1'' two_tenants))
   \<and> user_projectId user_u1 = ''p1''
   \<and> session_s1 \<in> set (sessions (deleteProjectAfter 1 ''p1'' two_tenants))
   \<and> session_projectId session_s1 = ''p1''
   \<and> log_l1 \<in> set (logs (deleteProjectAfter 1 ''p1'' two_tenants))
   \<and> log_projectId log_l1 = ''p1''"
  by (simp add: deleteProjectAfter_1
      Project_findByIdAndDelete_def Project_findById_def two_tenants_defs)

text \<open>
  C2, amended. \<open>deleteProject\<close> deletes the Project record first, then the Users, then
  the Sessions, then the Logs of the project. On a store whose project ids are unique:
  before the first call the store is untouched; after each of the four calls no Project
  has the id \<open>p\<close>; the first call leaves users, sessions and logs as they were; the second
  removes the users of \<open>p\<close> and leaves sessions and logs; the third removes the sessions
  of \<open>p\<close> and leaves the logs; the fourth removes the logs of \<open>p\<close>, and the store after
  it is the result of \<open>deleteProject\<close>.
\<close>

theorem deleteProject_order:
  assumes "distinct (map project_id (projects s))"
  shows "deleteProjectAfter 0 p s = s
    \<and> (\<forall>k\<in>{1, 2, 3, 4}. Project_findById (deleteProjectAfter k p s) p = None)
    \<and> users (deleteProjectAfter 1 p s) = users s
    \<and> sessions (deleteProjectAfter 1 p s) = sessions s
    \<and> logs (deleteProjectAfter 1 p s) = logs s
    \<and> (\<forall>u\<in>set (users (deleteProjectAfter 2 p s)). user_projectId u \<noteq> p)
    \<and> sessions (deleteProjectAfter 2 p s) = sessions s
    \<and> logs (deleteProjectAfter 2 p s) = logs s
    \<and> (\<forall>x\<in>set (sessions (deleteProjectAfter 3 p s)). session_projectId x \<noteq> p)
    \<and> logs (deleteProjectAfter 3 p s) = logs s
    \<and> (\<forall>l\<in>set (logs (deleteProjectAfter 4 p s)). log_projectId l \<noteq> p)
    \<and> deleteProject s (Some p) =
        (if p = [] then Inl (ApiError INVALID_FORMAT) else Inr (deleteProjectAfter 4 p s))"
proof -
  note after = deleteProjectAfter_1 deleteProjectAfter_2
    deleteProjectAfter_3 deleteProjectAfter_4
  note ops = Project_findByIdAndDelete_def User_deleteMany_def Session_deleteMany_def
    Log_deleteMany_def
  have zero: "deleteProjectAfter 0 p s = s"
    by (simp add: deleteProjectAfter_def runSteps_def)
  have gone: "\<forall>k\<in>{1, 2, 3, 4}. Project_findById (deleteProjectAfter k p s) p = None"
    using assms
    by (simp add: after ops runSteps_deleteProject Project_findById_def find_deleteOne_key)
  have one: "users (deleteProjectAfter 1 p s) = users s
      \<and> sessions (deleteProjectAfter 1 p s) = sessions s
      \<and> logs (deleteProjectAfter 1 p s) = logs s"
    by (simp add: after ops)
  have two: "(\<forall>u\<in>set (users (deleteProjectAfter 2 p s)). user_projectId u \<noteq> p)
      \<and> sessions (deleteProjectAfter 2 p s) = sessions s
      \<and> logs (deleteProjectAfter 2 p s) = logs s"
    by (simp add: after ops deleteMany_def)
  have three: "(\<forall>x\<in>set (sessions (deleteProjectAfter 3 p s)). session_projectId x \<noteq> p)
      \<and> logs (deleteProjectAfter 3 p s) = logs s"
    by (simp add: after ops deleteMany_def)
  have four: "\<forall>l\<in>set (logs (deleteProjectAfter 4 p s)). log_projectId l \<noteq> p"
    by (simp add: after runSteps_deleteProject deleteMany_def)
  have whole: "deleteProject s (Some p) =
      (if p = [] then Inl (ApiError INVALID_FORMAT) else Inr (deleteProjectAfter 4 p s))"
    by (simp add: deleteProject_def after)
  from zero gone one two three four whole show ?thesis by blast
qed

theorem deleteProject_order_witness:
  "distinct (map project_id (projects two_tenants))
    \<and> deleteProjectAfter 0 ''p1'' two_tenants = two_tenants
    \<and> Project_findById (deleteProjectAfter 1 ''p1'' two_tenants) ''p1'' = None
    \<and> users (deleteProjectAfter 1 ''p1'' two_tenants) = [user_u1, user_u2]
    \<and> users (deleteProjectAfter 2 ''p1'' two_tenants) = [user_u2]
    \<and> sessions (deleteProjectAfter 2 ''p1'' two_tenants) = [session_s1, session_s2]
    \<and> sessions (deleteProjectAfter 3 ''p1'' two_tenants) = [session_s2]
    \<and> logs (deleteProjectAfter 3 ''p1'' two_tenants) = [log_l1, log_l2]
    \<and> logs (deleteProjectAfter 4 ''p1'' two_tenants) = [log_l2]
    \<and> deleteProject two_tenants (Some ''p1'') = Inr (deleteProjectAfter 4 ''p1'' two_tenants)"
proof -
  have h: "distinct (map project_id (projects two_tenants))"
    by (simp add: two_tenants_defs)
  have u: "users two_tenants = [user_u1, user_u2]" "sessions two_tenants = [session_s1, session_s2]"
     "logs two_tenants = [log_l1, log_l2]"
    by (simp_all add: two_tenants_def)
  have p: "user_projectId user_u1 = ''p1''" "user_projectId user_u2 = ''p2''"
    "session_projectId session_s1 = ''p1''" "session_projectId session_s2 = ''p2''"
    "log_projectId log_l1 = ''p1''" "log_projectId log_l2 = ''p2''"
    by (simp_all add: two_tenants_defs)
  have e2: "users (deleteProjectAfter 2 ''p1'' two_tenants) = [user_u2]"
    by (simp add: deleteProjectAfter_2 User_deleteMany_def Project_findByIdAndDelete_def deleteMany_def u p)
  have e3: "sessions (deleteProjectAfter 3 ''p1'' two_tenants) = [session_s2]"
    by (simp add: deleteProjectAfter_3 User_deleteMany_def Session_deleteMany_def Project_findByIdAndDelete_def deleteMany_def u p)
  have e4: "logs (deleteProjectAfter 4 ''p1'' two_tenants) = [log_l2]"
    by (simp add: deleteProjectAfter_4 runSteps_deleteProject deleteMany_def u p)
  from h deleteProject_order [OF h, of "''p1''"] u e2 e3 e4 show ?thesis by simp
qed

section \<open>The cascades of deleteAllProjects\<close>

text \<open>
  C3 asks that \<open>deleteAllProjects\<close> await every cascade before it responds and report the
  cascades that failed. The code does neither. For admin \<open>a1\<close> of the store of two
  tenants the handler answers \<open>DELETED\<close> while the store is as it was, with the cascade of
  project \<open>p1\<close> still to run; when that cascade is rejected at its first call, the
  store keeps the project and all its dependents, although the answer was \<open>DELETED\<close>;
  only when the cascade runs to its end, after the answer, is the project gone.
\<close>

theorem deleteAllProjects_replies_before_cascades:
  "deleteAllProjects two_tenants ''a1'' = (DELETED, two_tenants, [''p1''])
   \<and> Project_findById two_tenants ''p1'' = Some project_p1
   \<and> settle (\<lambda>p. Some 0) [''p1''] two_tenants = two_tenants
   \<and> Project_findById (settle (\<lambda>p. None) [''p1''] two_tenants) ''p1'' = None"
proof -
  have reply: "deleteAllProjects two_tenants ''a1'' = (DELETED, two_tenants, [''p1''])"
    by (simp add: deleteAllProjects_def Project_idsOwnedBy_def two_tenants_defs)
  have there: "Project_findById two_tenants ''p1'' = Some project_p1"
    by (simp add: Project_findById_def two_tenants_def project_p1_def)
  have rejected: "settle (\<lambda>p. Some 0) [''p1''] two_tenants = two_tenants"
    by (simp add: deleteProjectAfter_def runSteps_def)
  have finished: "Project_findById (settle (\<lambda>p. None) [''p1''] two_tenants) ''p1'' = None"
    by (simp add: runSteps_deleteProject Project_findById_def two_tenants_def project_p1_def
        project_p2_def)
  from reply there rejected finished show ?thesis by simp
qed

section \<open>Tenant scope of the console operations\<close>

text \<open>
  C4 asks that \<open>getUserFromConsole\<close> and \<open>verifyUserFromConsole\<close> return or change only
  users of the validated project of the request. Neither query mentions the project. A
  request validated for project \<open>p1\<close> that names user \<open>u2\<close> of project \<open>p2\<close> is answered
  with the details and the sessions of \<open>u2\<close>, and the same request to
  \<open>verifyUserFromConsole\<close> marks \<open>u2\<close> as verified.
\<close>

theorem console_reaches_other_tenant:
  "user_projectId user_u2 = ''p2''
   \<and> getUserFromConsole two_tenants ''p1'' (Some ''u2'') =
       Inr \<lparr>details_user = user_u2\<lparr>user_password := None\<rparr>, sessionCount = 1,
            details_sessions = [\<lparr>view_id = ''s2'', view_userId = ''u2''\<rparr>]\<rparr>
   \<and> verifyUserFromConsole two_tenants ''p1'' (Some ''u2'') None =
       Inr (two_tenants\<lparr>users := [user_u1, user_u2\<lparr>isVerified := True\<rparr>]\<rparr>)"
  by (simp add: getUserFromConsole_def verifyUserFromConsole_def User_findById_def
      two_tenants_defs)

section \<open>Refreshing the access token\<close>

text \<open>
  C5. For every call of \<open>refreshAccessToken\<close>: when no refresh token is presented, or the
  presented token decodes to \<open>null\<close>, to a payload without an admin id or to an empty
  one, the call fails with \<open>REFRESH_TOKEN_INVALID\<close>; when no admin has the decoded id, it
  fails with \<open>NOT_FOUND\<close>; when the stored \<open>refreshTokenExpiry\<close> of that admin is less
  than the current time (in the comparison of the source, \<open>jsLess\<close>), it fails with
  \<open>REFRESH_TOKEN_EXPIRED\<close>; otherwise it returns a new access token, and in the store it
  leaves the admin record differs from the one it read in \<open>accessToken\<close> and
  \<open>accessTokenExpiry\<close> only (so \<open>refreshToken\<close> and \<open>refreshTokenExpiry\<close> are as
  before), every other admin is as before, and so are the other collections.
\<close>

theorem refreshAccessToken_contract:
  "(falsy (presentedRefreshToken authorization cookie) \<longrightarrow>
      refreshAccessToken D G now later s authorization cookie =
        Inl (ApiError REFRESH_TOKEN_INVALID))
   \<and> (presentedRefreshToken authorization cookie = Some tok \<and> tok \<noteq> []
        \<and> (D tok = None \<or> D tok = Some None \<or> D tok = Some (Some [])) \<longrightarrow>
      refreshAccessToken D G now later s authorization cookie =
        Inl (ApiError REFRESH_TOKEN_INVALID))
   \<and> (presentedRefreshToken authorization cookie = Some tok \<and> tok \<noteq> []
        \<and> D tok = Some (Some a) \<and> a \<noteq> [] \<and> Admin_findById s a = None \<longrightarrow>
      refreshAccessToken D G now later s authorization cookie = Inl (ApiError NOT_FOUND))
   \<and> (presentedRefreshToken authorization cookie = Some tok \<and> tok \<noteq> []
        \<and> D tok = Some (Some a) \<and> a \<noteq> [] \<and> Admin_findById s a = Some adm
        \<and> jsLess (refreshTokenExpiry adm) now \<longrightarrow>
      refreshAccessToken D G now later s authorization cookie =
        Inl (ApiError REFRESH_TOKEN_EXPIRED))
   \<and> (presentedRefreshToken authorization cookie = Some tok \<and> tok \<noteq> []
        \<and> D tok = Some (Some a) \<and> a \<noteq> [] \<and> Admin_findById s a = Some adm
        \<and> \<not> jsLess (refreshTokenExpiry adm) now \<longrightarrow>
      (\<exists>s'. refreshAccessToken D G now later s authorization cookie =
               Inr (G a (admin_email adm), s')
         \<and> Admin_findById s' a =
             Some (adm\<lparr>accessToken := Val (G a (admin_email adm)),
                       accessTokenExpiry := Val (later + 86400000)\<rparr>)
         \<and> (\<forall>b. b \<noteq> a \<longrightarrow> Admin_findById s' b = Admin_findById s b)
         \<and> projects s' = projects s \<and> users s' = users s
         \<and> sessions s' = sessions s \<and> logs s' = logs s))"
proof (intro conjI impI)
  assume "falsy (presentedRefreshToken authorization cookie)"
  then show "refreshAccessToken D G now later s authorization cookie =
      Inl (ApiError REFRESH_TOKEN_INVALID)"
    by (simp add: refreshAccessToken_def)
next
  assume "presentedRefreshToken authorization cookie = Some tok \<and> tok \<noteq> []
      \<and> (D tok = None \<or> D tok = Some None \<or> D tok = Some (Some []))"
  then show "refreshAccessToken D G now later s authorization cookie =
      Inl (ApiError REFRESH_TOKEN_INVALID)"
    by (auto simp: refreshAccessToken_def)
next
  assume "presentedRefreshToken authorization cookie = Some tok \<and> tok \<noteq> []
      \<and> D tok = Some (Some a) \<and> a \<noteq> [] \<and> Admin_findById s a = None"
  then show "refreshAccessToken D G now later s authorization cookie =
      Inl (ApiError NOT_FOUND)"
    by (simp add: refreshAccessToken_def)
next
  assume "presentedRefreshToken authorization cookie = Some tok \<and> tok \<noteq> []
      \<and> D tok = Some (Some a) \<and> a \<noteq> [] \<and> Admin_findById s a = Some adm
      \<and> jsLess (refreshTokenExpiry adm) now"
  then show "refreshAccessToken D G now later s authorization cookie =
      Inl (ApiError REFRESH_TOKEN_EXPIRED)"
    by (simp add: refreshAccessToken_def)
next
  assume h: "presentedRefreshToken authorization cookie = Some tok \<and> tok \<noteq> []
      \<and> D tok = Some (Some a) \<and> a \<noteq> [] \<and> Admin_findById s a = Some adm
      \<and> \<not> jsLess (refreshTokenExpiry adm) now"
  then have id: "admin_id adm = a"
    by (blast dest: Admin_findById_id)
  define s' where
    "s' = s\<lparr>admins := updateOne (\<lambda>x. admin_id x = a)
             (\<lambda>x. x\<lparr>accessToken := Val (G a (admin_email adm)),
                     accessTokenExpiry := Val (later + 86400000)\<rparr>) (admins s)\<rparr>"
  have run: "refreshAccessToken D G now later s authorization cookie =
      Inr (G a (admin_email adm), s')"
    using h id by (simp add: refreshAccessToken_def s'_def Let_def)
  have found: "Admin_findById s' a =
      Some (adm\<lparr>accessToken := Val (G a (admin_email adm)),
                accessTokenExpiry := Val (later + 86400000)\<rparr>)"
    using h by (simp add: Admin_findById_def s'_def find_updateOne_key)
  have others: "\<forall>b. b \<noteq> a \<longrightarrow> Admin_findById s' b = Admin_findById s b"
    by (simp add: Admin_findById_def s'_def find_updateOne_key)
  have frame: "projects s' = projects s \<and> users s' = users s
      \<and> sessions s' = sessions s \<and> logs s' = logs s"
    by (simp add: s'_def)
  from run found others frame
  show "\<exists>s'. refreshAccessToken D G now later s authorization cookie =
            Inr (G a (admin_email adm), s')
      \<and> Admin_findById s' a =
          Some (adm\<lparr>accessToken := Val (G a (admin_email adm)),
                    accessTokenExpiry := Val (later + 86400000)\<rparr>)
      \<and> (\<forall>b. b \<noteq> a \<longrightarrow> Admin_findById s' b = Admin_findById s b)
      \<and> projects s' = projects s \<and> users s' = users s
      \<and> sessions s' = sessions s \<and> logs s' = logs s"
    by blast
qed

theorem refreshAccessToken_contract_witness:
  "refreshAccessToken decode_demo generate_demo 1000 1001 two_tenants None None =
     Inl (ApiError REFRESH_TOKEN_INVALID)
   \<and> refreshAccessToken decode_demo generate_demo 1000 1001 two_tenants
       (Some ''Bearer rx'') None = Inl (ApiError REFRESH_TOKEN_INVALID)
   \<and> refreshAccessToken decode_demo generate_demo 1000 1001 two_tenants
       None (Some ''r9'') = Inl (ApiError NOT_FOUND)
   \<and> refreshAccessToken decode_demo generate_demo 6000 6001 two_tenants
       (Some ''Bearer r1'') None = Inl (ApiError REFRESH_TOKEN_EXPIRED)
   \<and> (\<exists>s'. refreshAccessToken decode_demo generate_demo 1000 1001 two_tenants
              (Some ''Bearer r1'') None = Inr (''token-a1'', s')
         \<and> Admin_findById s' ''a1'' =
             Some (admin_a1\<lparr>accessToken := Val ''token-a1'',
                            accessTokenExpiry := Val 86401001\<rparr>)
         \<and> Admin_findById s' ''a2'' = Some admin_a2)"
proof -
  have p0: "falsy (presentedRefreshToken None None)"
    by (simp add: presentedRefreshToken_def)
  have px: "presentedRefreshToken (Some ''Bearer rx'') None = Some ''rx''"
    and p9: "presentedRefreshToken None (Some ''r9'') = Some ''r9''"
    and p1: "presentedRefreshToken (Some ''Bearer r1'') None = Some ''r1''"
    by (simp_all add: presentedRefreshToken_def)
  have dx: "decode_demo ''rx'' = Some None"
    and d9: "decode_demo ''r9'' = Some (Some ''a9'')"
    and d1: "decode_demo ''r1'' = Some (Some ''a1'')"
    by (simp_all add: decode_demo_def)
  have f9: "Admin_findById two_tenants ''a9'' = None"
    and f1: "Admin_findById two_tenants ''a1'' = Some admin_a1"
    by (simp_all add: Admin_findById_def two_tenants_defs)
  have late: "jsLess (refreshTokenExpiry admin_a1) 6000"
    and early: "\<not> jsLess (refreshTokenExpiry admin_a1) 1000"
    by (simp_all add: admin_a1_def)
  have c1: "refreshAccessToken decode_demo generate_demo 1000 1001 two_tenants None None =
      Inl (ApiError REFRESH_TOKEN_INVALID)"
    using refreshAccessToken_contract [of None None decode_demo generate_demo 1000 1001
        two_tenants] p0
    by simp
  have c2: "refreshAccessToken decode_demo generate_demo 1000 1001 two_tenants
      (Some ''Bearer rx'') None = Inl (ApiError REFRESH_TOKEN_INVALID)"
    using refreshAccessToken_contract [of "Some ''Bearer rx''" None decode_demo generate_demo
        1000 1001 two_tenants "''rx''"] px dx
    by simp
  have c3: "refreshAccessToken decode_demo generate_demo 1000 1001 two_tenants
      None (Some ''r9'') = Inl (ApiError NOT_FOUND)"
    using refreshAccessToken_contract [of None "Some ''r9''" decode_demo generate_demo
        1000 1001 two_tenants "''r9''" "''a9''"] p9 d9 f9
    by simp
  have c4: "refreshAccessToken decode_demo generate_demo 6000 6001 two_tenants
      (Some ''Bearer r1'') None = Inl (ApiError REFRESH_TOKEN_EXPIRED)"
    using refreshAccessToken_contract [of "Some ''Bearer r1''" None decode_demo generate_demo
        6000 6001 two_tenants "''r1''" "''a1''" admin_a1] p1 d1 f1 late
    by simp
  have f2: "Admin_findById two_tenants ''a2'' = Some admin_a2"
    by (simp add: Admin_findById_def two_tenants_defs)
  have c5: "\<exists>s'. refreshAccessToken decode_demo generate_demo 1000 1001 two_tenants
              (Some ''Bearer r1'') None = Inr (''token-a1'', s')
         \<and> Admin_findById s' ''a1'' =
             Some (admin_a1\<lparr>accessToken := Val ''token-a1'',
                            accessTokenExpiry := Val 86401001\<rparr>)
         \<and> Admin_findById s' ''a2'' = Some admin_a2"
    using refreshAccessToken_contract [of "Some ''Bearer r1''" None decode_demo generate_demo
        1000 1001 two_tenants "''r1''" "''a1''" admin_a1] p1 d1 f1 f2 early
    by (auto simp: generate_demo_def)
  from c1 c2 c3 c4 c5 show ?thesis by blast
qed

section \<open>Logging the admin out\<close>

text \<open>
  C6. When the admin record exists, \<open>deleteLoginSession\<close> leaves it with
  \<open>refreshToken\<close>, \<open>refreshTokenExpiry\<close>, \<open>accessToken\<close> and \<open>accessTokenExpiry\<close> all
  \<open>null\<close> and otherwise as it was. From then on a check against the stored fields fails:
  an access token of this admin that still verifies by itself is refused by
  \<open>authenticateAdmin\<close>, at any time, and \<open>refreshAccessToken\<close> with a refresh token of
  this admin fails with \<open>REFRESH_TOKEN_EXPIRED\<close> at any time after the epoch.
\<close>

theorem deleteLoginSession_revokes:
  assumes "Admin_findById s adminId = Some a"
  shows "Admin_findById (deleteLoginSession s adminId) adminId =
           Some (a\<lparr>refreshToken := Null, refreshTokenExpiry := Null,
                    accessToken := Null, accessTokenExpiry := Null\<rparr>)
    \<and> (jwt_verify token = Some adminId \<longrightarrow>
          authenticateAdmin jwt_verify now (deleteLoginSession s adminId) token =
            Inl (ApiError ACCESS_TOKEN_EXPIRED))
    \<and> (presentedRefreshToken authorization cookie = Some tok \<and> tok \<noteq> []
          \<and> D tok = Some (Some adminId) \<and> adminId \<noteq> [] \<and> 0 < now \<longrightarrow>
          refreshAccessToken D G now later (deleteLoginSession s adminId) authorization cookie =
            Inl (ApiError REFRESH_TOKEN_EXPIRED))"
proof -
  let ?a' = "a\<lparr>refreshToken := Null, refreshTokenExpiry := Null,
                accessToken := Null, accessTokenExpiry := Null\<rparr>"
  have found: "Admin_findById (deleteLoginSession s adminId) adminId = Some ?a'"
    using assms by (simp add: Admin_findById_def deleteLoginSession_def find_updateOne_key)
  have access: "authenticateAdmin jwt_verify now (deleteLoginSession s adminId) token =
      Inl (ApiError ACCESS_TOKEN_EXPIRED)"
    if "jwt_verify token = Some adminId"
    using that found by (simp add: authenticateAdmin_def)
  have refresh: "refreshAccessToken D G now later (deleteLoginSession s adminId)
      authorization cookie = Inl (ApiError REFRESH_TOKEN_EXPIRED)"
    if "presentedRefreshToken authorization cookie = Some tok \<and> tok \<noteq> []
      \<and> D tok = Some (Some adminId) \<and> adminId \<noteq> [] \<and> 0 < now"
    using that found by (simp add: refreshAccessToken_def)
  from found access refresh show ?thesis by (intro conjI impI)
qed

theorem deleteLoginSession_revokes_witness:
  "Admin_findById two_tenants ''a1'' = Some admin_a1
   \<and> authenticateAdmin verify_demo 1000 two_tenants ''t1'' = Inr admin_a1
   \<and> Admin_findById (deleteLoginSession two_tenants ''a1'') ''a1'' =
       Some (admin_a1\<lparr>refreshToken := Null, refreshTokenExpiry := Null,
                      accessToken := Null, accessTokenExpiry := Null\<rparr>)
   \<and> authenticateAdmin verify_demo 1000 (deleteLoginSession two_tenants ''a1'') ''t1'' =
       Inl (ApiError ACCESS_TOKEN_EXPIRED)
   \<and> refreshAccessToken decode_demo generate_demo 1000 1001
       (deleteLoginSession two_tenants ''a1'') (Some ''Bearer r1'') None =
       Inl (ApiError REFRESH_TOKEN_EXPIRED)"
proof -
  have h: "Admin_findById two_tenants ''a1'' = Some admin_a1"
    by (simp add: Admin_findById_def two_tenants_defs)
  have v: "verify_demo ''t1'' = Some ''a1''"
    by (simp add: verify_demo_def)
  have before: "authenticateAdmin verify_demo 1000 two_tenants ''t1'' = Inr admin_a1"
    using h v by (simp add: authenticateAdmin_def) (simp add: admin_a1_def)
  have p: "presentedRefreshToken (Some ''Bearer r1'') None = Some ''r1''"
    by (simp add: presentedRefreshToken_def)
  have d: "decode_demo ''r1'' = Some (Some ''a1'')"
    by (simp add: decode_demo_def)
  note inst = deleteLoginSession_revokes [OF h, of verify_demo "''t1''" 1000
      "Some ''Bearer r1''" None "''r1''" decode_demo generate_demo 1001]
  from inst v p d h before show ?thesis by simp
qed

section \<open>Names of projects\<close>

text \<open>
  C7. For a request that passes the checks \<open>createProject\<close> makes before it reads the
  store: when a project with the same owner and the same \<open>projectName\<close> exists,
  \<open>createProject\<close> fails with \<open>ALREADY_EXISTS\<close>; when no project of this owner has the
  name, whatever other owners have, it succeeds and adds a project with this owner and
  name to the store. Whether or not the request passes the checks, \<open>createProject\<close> never
  succeeds when the pair exists. Consequently the pairs of owner and \<open>projectName\<close> stay
  unique: a store with unique pairs has unique pairs after every successful
  \<open>createProject\<close>.
\<close>

theorem createProject_unique_names:
  "(checkCreateBody V body = None
      \<and> (\<exists>p\<in>set (projects s). owner p = adminId \<and> projectName p = body_projectName body) \<longrightarrow>
      createProject V sign newId temporaryKey s adminId body = Inl (ApiError ALREADY_EXISTS))
   \<and> ((\<exists>p\<in>set (projects s). owner p = adminId \<and> projectName p = body_projectName body) \<longrightarrow>
      (\<exists>e. createProject V sign newId temporaryKey s adminId body = Inl e))
   \<and> (checkCreateBody V body = None
      \<and> (\<forall>p\<in>set (projects s). owner p = adminId \<longrightarrow> projectName p \<noteq> body_projectName body) \<longrightarrow>
      (\<exists>created s'. createProject V sign newId temporaryKey s adminId body = Inr (created, s')
         \<and> owner created = adminId \<and> projectName created = body_projectName body
         \<and> map (\<lambda>p. (owner p, projectName p)) (projects s') =
             map (\<lambda>p. (owner p, projectName p)) (projects s) @ [(adminId, body_projectName body)]))
   \<and> (uniqueNames s \<and> createProject V sign newId temporaryKey s adminId body = Inr (created, s') \<longrightarrow>
      uniqueNames s')"
proof (intro conjI impI)
  assume h: "checkCreateBody V body = None
      \<and> (\<exists>p\<in>set (projects s). owner p = adminId \<and> projectName p = body_projectName body)"
  then have "find (\<lambda>p. projectName p = body_projectName body \<and> owner p = adminId) (projects s)
      \<noteq> None"
    by (auto simp: find_None_iff)
  with h show "createProject V sign newId temporaryKey s adminId body =
      Inl (ApiError ALREADY_EXISTS)"
    by (auto simp: createProject_def)
next
  assume h: "\<exists>p\<in>set (projects s). owner p = adminId \<and> projectName p = body_projectName body"
  then have "find (\<lambda>p. projectName p = body_projectName body \<and> owner p = adminId) (projects s)
      \<noteq> None"
    by (auto simp: find_None_iff)
  then show "\<exists>e. createProject V sign newId temporaryKey s adminId body = Inl e"
    by (auto simp: createProject_def split: option.splits)
next
  assume h: "checkCreateBody V body = None
      \<and> (\<forall>p\<in>set (projects s). owner p = adminId \<longrightarrow> projectName p \<noteq> body_projectName body)"
  then have none: "find (\<lambda>p. projectName p = body_projectName body \<and> owner p = adminId)
      (projects s) = None"
    by (auto simp: find_None_iff)
  with h show "\<exists>created s'.
      createProject V sign newId temporaryKey s adminId body = Inr (created, s')
      \<and> owner created = adminId \<and> projectName created = body_projectName body
      \<and> map (\<lambda>p. (owner p, projectName p)) (projects s') =
          map (\<lambda>p. (owner p, projectName p)) (projects s) @ [(adminId, body_projectName body)]"
    by (simp add: createProject_def Let_def map_updateOne_same)
next
  assume h: "uniqueNames s
      \<and> createProject V sign newId temporaryKey s adminId body = Inr (created, s')"
  then have none: "find (\<lambda>p. projectName p = body_projectName body \<and> owner p = adminId)
      (projects s) = None"
    by (auto simp: createProject_def split: option.splits)
  with h have "map (\<lambda>p. (owner p, projectName p)) (projects s') =
      map (\<lambda>p. (owner p, projectName p)) (projects s) @ [(adminId, body_projectName body)]"
    by (auto simp: createProject_def Let_def map_updateOne_same split: option.splits)
  moreover from none have "(adminId, body_projectName body)
      \<notin> set (map (\<lambda>p. (owner p, projectName p)) (projects s))"
    by (auto simp: find_None_iff)
  ultimately show "uniqueNames s'"
    using h by (simp add: uniqueNames_def)
qed

theorem createProject_unique_names_witness:
  "checkCreateBody validators_demo body_shop = None
   \<and> uniqueNames two_tenants
   \<and> createProject validators_demo sign_demo ''p3'' ''temporary'' two_tenants ''a1'' body_shop =
       Inl (ApiError ALREADY_EXISTS)
   \<and> (\<exists>created s'.
         createProject validators_demo sign_demo ''p3'' ''temporary'' two_tenants ''a3'' body_shop =
           Inr (created, s')
         \<and> owner created = ''a3'' \<and> projectName created = ''shop''
         \<and> map (\<lambda>p. (owner p, projectName p)) (projects s') =
             [(''a1'', ''shop''), (''a2'', ''shop''), (''a3'', ''shop'')]
         \<and> uniqueNames s')"
proof -
  have ok: "checkCreateBody validators_demo body_shop = None"
    by (simp add: checkCreateBody_def validators_demo_def body_shop_def trimmedEmpty_def
        whiteSpace_def)
  have names: "map (\<lambda>p. (owner p, projectName p)) (projects two_tenants) =
      [(''a1'', ''shop''), (''a2'', ''shop'')]"
    by (simp add: two_tenants_def project_p1_def project_p2_def)
  have uniq: "uniqueNames two_tenants"
    by (simp add: uniqueNames_def names)
  have name: "body_projectName body_shop = ''shop''"
    by (simp add: body_shop_def)
  have taken: "\<exists>p\<in>set (projects two_tenants).
      owner p = ''a1'' \<and> projectName p = body_projectName body_shop"
    by (simp add: name) (simp add: two_tenants_def project_p1_def)
  have free: "\<forall>p\<in>set (projects two_tenants).
      owner p = ''a3'' \<longrightarrow> projectName p \<noteq> body_projectName body_shop"
    by (simp add: two_tenants_def project_p1_def project_p2_def)
  have c1: "createProject validators_demo sign_demo ''p3'' ''temporary'' two_tenants ''a1''
      body_shop = Inl (ApiError ALREADY_EXISTS)"
    using createProject_unique_names [where V = validators_demo and body = body_shop
        and s = two_tenants and adminId = "''a1''" and sign = sign_demo and newId = "''p3''"
        and temporaryKey = "''temporary''"] ok taken
    by blast
  have "\<exists>created s'.
      createProject validators_demo sign_demo ''p3'' ''temporary'' two_tenants ''a3'' body_shop =
        Inr (created, s')
      \<and> owner created = ''a3'' \<and> projectName created = ''shop''
      \<and> map (\<lambda>p. (owner p, projectName p)) (projects s') =
          [(''a1'', ''shop''), (''a2'', ''shop''), (''a3'', ''shop'')]"
    using createProject_unique_names [where V = validators_demo and body = body_shop
        and s = two_tenants and adminId = "''a3''" and sign = sign_demo and newId = "''p3''"
        and temporaryKey = "''temporary''"] ok free
    by (simp add: names name)
  then obtain created s' where
    run: "createProject validators_demo sign_demo ''p3'' ''temporary'' two_tenants ''a3''
      body_shop = Inr (created, s')"
    and own: "owner created = ''a3''" "projectName created = ''shop''"
    and all: "map (\<lambda>p. (owner p, projectName p)) (projects s') =
      [(''a1'', ''shop''), (''a2'', ''shop''), (''a3'', ''shop'')]"
    by (elim exE conjE)
  have "uniqueNames s'"
    using createProject_unique_names [where V = validators_demo and body = body_shop
        and s = two_tenants and adminId = "''a3''" and sign = sign_demo and newId = "''p3''"
        and temporaryKey = "''temporary''" and created = created and s' = s'] uniq run
    by blast
  with ok uniq c1 run own all show ?thesis by auto
qed

section \<open>The contract of the log queries\<close>

text \<open>
  C8, as the spec states it, has every log query answer an absent eventCode with a
  \<open>ValidationError\<close>. It fails: with no eventCode in the request, both queries that take
  one fail with \<open>NOT_FOUND\<close>, by a guard of the controller that comes before the call of
  \<open>validateLogInput\<close>.
\<close>

theorem logQueries_absent_eventCode_counterexample:
  "getLogsByEventCode (validateLogInput EventCodes_demo) (queryLogs 50 (logs two_tenants))
     ''p1'' None body_page1 = Inl (ApiError NOT_FOUND)
   \<and> getUserLogsByEventCode (validateLogInput EventCodes_demo)
       (queryLogs 50 (logs two_tenants)) ''p1'' (Some ''u1'') None body_page1 =
       Inl (ApiError NOT_FOUND)
   \<and> ApiError NOT_FOUND \<noteq> ApiError VALIDATION_ERROR"
  by (simp add: getLogsByEventCode_def getUserLogsByEventCode_def)

text \<open>
  C8, amended. Every paginated log query (by user, by event code, by user and event code)
  enforces the shared contract, with one change: an absent or empty eventCode yields
  \<open>NOT_FOUND\<close>. An eventCode that is not recognized yields \<open>VALIDATION_ERROR\<close>; an absent
  userId in a query by user, or by user and event code, yields \<open>VALIDATION_ERROR\<close>; and a
  well-formed query that matches no rows returns the empty page and no error.
\<close>

theorem logQueries_contract:
  "(falsy eventCode \<longrightarrow>
      getLogsByEventCode (validateLogInput EventCodes) (queryLogs maxItemLimit (logs s))
        projectId eventCode body = Inl (ApiError NOT_FOUND)
      \<and> getUserLogsByEventCode (validateLogInput EventCodes) (queryLogs maxItemLimit (logs s))
          projectId userId eventCode body = Inl (ApiError NOT_FOUND))
   \<and> (eventCode = Some e \<and> e \<noteq> [] \<and> e \<notin> set EventCodes \<longrightarrow>
      getLogsByEventCode (validateLogInput EventCodes) (queryLogs maxItemLimit (logs s))
        projectId eventCode body = Inl (ApiError VALIDATION_ERROR)
      \<and> getUserLogsByEventCode (validateLogInput EventCodes) (queryLogs maxItemLimit (logs s))
          projectId userId eventCode body = Inl (ApiError VALIDATION_ERROR))
   \<and> (falsy reqUserId \<and> falsy (body_userId body) \<longrightarrow>
      getLogsByUserId (validateLogInput EventCodes) (queryLogs maxItemLimit (logs s))
        projectId reqUserId body = Inl (ApiError VALIDATION_ERROR))
   \<and> (eventCode = Some e \<and> e \<noteq> [] \<and> falsy userId \<longrightarrow>
      getUserLogsByEventCode (validateLogInput EventCodes) (queryLogs maxItemLimit (logs s))
        projectId userId eventCode body = Inl (ApiError VALIDATION_ERROR))
   \<and> (body_page body = Some page \<and> 0 < page \<and> body_itemLimit body = Some itemLimit
        \<and> 0 < itemLimit \<and> validRange (body_startDate body) (body_endDate body)
        \<and> eventCode = Some e \<and> e \<in> set EventCodes \<and> e \<noteq> []
        \<and> (\<forall>l\<in>set (logs s).
              \<not> (log_projectId l = projectId \<and> log_eventCode l = e
                  \<and> inRange (body_startDate body) (body_endDate body) (log_createdAt l))) \<longrightarrow>
      getLogsByEventCode (validateLogInput EventCodes) (queryLogs maxItemLimit (logs s))
        projectId eventCode body = Inr [])
   \<and> (body_page body = Some page \<and> 0 < page \<and> body_itemLimit body = Some itemLimit
        \<and> 0 < itemLimit \<and> validRange (body_startDate body) (body_endDate body)
        \<and> (if falsy reqUserId then body_userId body else reqUserId) = Some u \<and> u \<noteq> []
        \<and> (\<forall>l\<in>set (logs s).
              \<not> (log_projectId l = projectId \<and> log_userId l = Some u
                  \<and> inRange (body_startDate body) (body_endDate body) (log_createdAt l))) \<longrightarrow>
      getLogsByUserId (validateLogInput EventCodes) (queryLogs maxItemLimit (logs s))
        projectId reqUserId body = Inr [])
   \<and> (body_page body = Some page \<and> 0 < page \<and> body_itemLimit body = Some itemLimit
        \<and> 0 < itemLimit \<and> validRange (body_startDate body) (body_endDate body)
        \<and> eventCode = Some e \<and> e \<in> set EventCodes \<and> e \<noteq> []
        \<and> userId = Some u \<and> u \<noteq> []
        \<and> (\<forall>l\<in>set (logs s).
              \<not> (log_projectId l = projectId \<and> log_userId l = Some u \<and> log_eventCode l = e
                  \<and> inRange (body_startDate body) (body_endDate body) (log_createdAt l))) \<longrightarrow>
      getUserLogsByEventCode (validateLogInput EventCodes) (queryLogs maxItemLimit (logs s))
        projectId userId eventCode body = Inr [])"
proof (intro conjI impI)
  assume "falsy eventCode"
  then show "getLogsByEventCode (validateLogInput EventCodes) (queryLogs maxItemLimit (logs s))
      projectId eventCode body = Inl (ApiError NOT_FOUND)"
    by (simp add: getLogsByEventCode_def)
next
  assume "falsy eventCode"
  then show "getUserLogsByEventCode (validateLogInput EventCodes)
      (queryLogs maxItemLimit (logs s)) projectId userId eventCode body =
      Inl (ApiError NOT_FOUND)"
    by (simp add: getUserLogsByEventCode_def)
next
  assume "eventCode = Some e \<and> e \<noteq> [] \<and> e \<notin> set EventCodes"
  then show "getLogsByEventCode (validateLogInput EventCodes) (queryLogs maxItemLimit (logs s))
      projectId eventCode body = Inl (ApiError VALIDATION_ERROR)"
    by (simp add: getLogsByEventCode_def validateLogInput_def)
next
  assume "eventCode = Some e \<and> e \<noteq> [] \<and> e \<notin> set EventCodes"
  then show "getUserLogsByEventCode (validateLogInput EventCodes)
      (queryLogs maxItemLimit (logs s)) projectId userId eventCode body =
      Inl (ApiError VALIDATION_ERROR)"
    by (simp add: getUserLogsByEventCode_def validateLogInput_def)
next
  assume "falsy reqUserId \<and> falsy (body_userId body)"
  then show "getLogsByUserId (validateLogInput EventCodes) (queryLogs maxItemLimit (logs s))
      projectId reqUserId body = Inl (ApiError VALIDATION_ERROR)"
    by (simp add: getLogsByUserId_def validateLogInput_def)
next
  assume "eventCode = Some e \<and> e \<noteq> [] \<and> falsy userId"
  then show "getUserLogsByEventCode (validateLogInput EventCodes)
      (queryLogs maxItemLimit (logs s)) projectId userId eventCode body =
      Inl (ApiError VALIDATION_ERROR)"
    by (simp add: getUserLogsByEventCode_def validateLogInput_def)
next
  let ?q = "\<lparr>q_projectId = projectId, q_userId = None, q_eventCode = eventCode,
      q_page = body_page body, q_queryItemCount = body_itemLimit body,
      q_startDate = body_startDate body, q_endDate = body_endDate body\<rparr>"
  assume h: "body_page body = Some page \<and> 0 < page \<and> body_itemLimit body = Some itemLimit
      \<and> 0 < itemLimit \<and> validRange (body_startDate body) (body_endDate body)
      \<and> eventCode = Some e \<and> e \<in> set EventCodes \<and> e \<noteq> []
      \<and> (\<forall>l\<in>set (logs s).
            \<not> (log_projectId l = projectId \<and> log_eventCode l = e
                \<and> inRange (body_startDate body) (body_endDate body) (log_createdAt l)))"
  then have "\<forall>l\<in>set (logs s). \<not> matchesQuery ?q l"
    by (simp add: matchesQuery_def)
  then have "queryLogs maxItemLimit (logs s) ?q = []"
    by (rule queryLogs_no_rows)
  with h show "getLogsByEventCode (validateLogInput EventCodes)
      (queryLogs maxItemLimit (logs s)) projectId eventCode body = Inr []"
    by (simp add: getLogsByEventCode_def validateLogInput_def)
next
  let ?q = "\<lparr>q_projectId = projectId, q_userId = Some u, q_eventCode = None,
      q_page = body_page body, q_queryItemCount = body_itemLimit body,
      q_startDate = body_startDate body, q_endDate = body_endDate body\<rparr>"
  assume h: "body_page body = Some page \<and> 0 < page \<and> body_itemLimit body = Some itemLimit
      \<and> 0 < itemLimit \<and> validRange (body_startDate body) (body_endDate body)
      \<and> (if falsy reqUserId then body_userId body else reqUserId) = Some u \<and> u \<noteq> []
      \<and> (\<forall>l\<in>set (logs s).
            \<not> (log_projectId l = projectId \<and> log_userId l = Some u
                \<and> inRange (body_startDate body) (body_endDate body) (log_createdAt l)))"
  then have "\<forall>l\<in>set (logs s). \<not> matchesQuery ?q l"
    by (simp add: matchesQuery_def)
  then have "queryLogs maxItemLimit (logs s) ?q = []"
    by (rule queryLogs_no_rows)
  with h show "getLogsByUserId (validateLogInput EventCodes)
      (queryLogs maxItemLimit (logs s)) projectId reqUserId body = Inr []"
    by (simp add: getLogsByUserId_def validateLogInput_def Let_def)
next
  let ?q = "\<lparr>q_projectId = projectId, q_userId = userId, q_eventCode = eventCode,
      q_page = body_page body, q_queryItemCount = body_itemLimit body,
      q_startDate = body_startDate body, q_endDate = body_endDate body\<rparr>"
  assume h: "body_page body = Some page \<and> 0 < page \<and> body_itemLimit body = Some itemLimit
      \<and> 0 < itemLimit \<and> validRange (body_startDate body) (body_endDate body)
      \<and> eventCode = Some e \<and> e \<in> set EventCodes \<and> e \<noteq> []
      \<and> userId = Some u \<and> u \<noteq> []
      \<and> (\<forall>l\<in>set (logs s).
            \<not> (log_projectId l = projectId \<and> log_userId l = Some u \<and> log_eventCode l = e
                \<and> inRange (body_startDate body) (body_endDate body) (log_createdAt l)))"
  then have "\<forall>l\<in>set (logs s). \<not> matchesQuery ?q l"
    by (simp add: matchesQuery_def)
  then have "queryLogs maxItemLimit (logs s) ?q = []"
    by (rule queryLogs_no_rows)
  with h show "getUserLogsByEventCode (validateLogInput EventCodes)
      (queryLogs maxItemLimit (logs s)) projectId userId eventCode body = Inr []"
    by (simp add: getUserLogsByEventCode_def validateLogInput_def)
qed

theorem logQueries_contract_witness:
  "getLogsByEventCode (validateLogInput EventCodes_demo) (queryLogs 50 (logs logged_store))
     ''p1'' (Some []) body_page1 = Inl (ApiError NOT_FOUND)
   \<and> getLogsByEventCode (validateLogInput EventCodes_demo) (queryLogs 50 (logs logged_store))
       ''p1'' (Some ''XYZ'') body_page1 = Inl (ApiError VALIDATION_ERROR)
   \<and> getLogsByUserId (validateLogInput EventCodes_demo) (queryLogs 50 (logs logged_store))
       ''p1'' None body_page1 = Inl (ApiError VALIDATION_ERROR)
   \<and> getUserLogsByEventCode (validateLogInput EventCodes_demo)
       (queryLogs 50 (logs logged_store)) ''p1'' None (Some ''PASSWORD_LOGIN'') body_page1 =
       Inl (ApiError VALIDATION_ERROR)
   \<and> getLogsByEventCode (validateLogInput EventCodes_demo) (queryLogs 50 (logs logged_store))
       ''p1'' (Some ''LOGOUT'') body_page1 = Inr []
   \<and> getLogsByUserId (validateLogInput EventCodes_demo) (queryLogs 50 (logs logged_store))
       ''p1'' (Some ''u9'') body_page1 = Inr []
   \<and> getUserLogsByEventCode (validateLogInput EventCodes_demo)
       (queryLogs 50 (logs logged_store)) ''p1'' (Some ''u1'') (Some ''LOGOUT'') body_page1 =
       Inr []
   \<and> getLogsByUserId (validateLogInput EventCodes_demo) (queryLogs 50 (logs logged_store))
       ''p1'' (Some ''u1'') body_page1 = Inr [log_l1, log_l0]"
proof -
  note inst = logQueries_contract [where EventCodes = EventCodes_demo and maxItemLimit = 50
      and s = logged_store and projectId = "''p1''" and body = body_page1 and page = 1
      and itemLimit = 10]
  have paging: "body_page body_page1 = Some 1" "body_itemLimit body_page1 = Some 10"
    "validRange (body_startDate body_page1) (body_endDate body_page1)"
    "body_userId body_page1 = None"
    by (simp_all add: body_page1_def validRange_def)
  have codes: "''XYZ'' \<notin> set EventCodes_demo" "''LOGOUT'' \<in> set EventCodes_demo"
    "''PASSWORD_LOGIN'' \<in> set EventCodes_demo"
    by (simp_all add: EventCodes_demo_def)
  have rows: "logs logged_store = [log_l0, log_l1, log_l2]"
    by (simp add: logged_store_def)
  have l: "log_projectId log_l0 = ''p1''" "log_projectId log_l1 = ''p1''"
    "log_projectId log_l2 = ''p2''" "log_userId log_l0 = Some ''u1''"
    "log_userId log_l1 = Some ''u1''" "log_eventCode log_l0 = ''PASSWORD_LOGIN''"
    "log_eventCode log_l1 = ''PASSWORD_LOGIN''" "log_createdAt log_l0 = 50"
    "log_createdAt log_l1 = 100"
    by (simp_all add: log_l0_def log_l1_def log_l2_def)
  have w1: "getLogsByEventCode (validateLogInput EventCodes_demo)
      (queryLogs 50 (logs logged_store)) ''p1'' (Some []) body_page1 =
      Inl (ApiError NOT_FOUND)"
    using inst [where eventCode = "Some []"] by simp
  have w2: "getLogsByEventCode (validateLogInput EventCodes_demo)
      (queryLogs 50 (logs logged_store)) ''p1'' (Some ''XYZ'') body_page1 =
      Inl (ApiError VALIDATION_ERROR)"
    using inst [where eventCode = "Some ''XYZ''" and e = "''XYZ''"] codes by simp
  have w3: "getLogsByUserId (validateLogInput EventCodes_demo)
      (queryLogs 50 (logs logged_store)) ''p1'' None body_page1 =
      Inl (ApiError VALIDATION_ERROR)"
    using inst [where reqUserId = None] paging by simp
  have w4: "getUserLogsByEventCode (validateLogInput EventCodes_demo)
      (queryLogs 50 (logs logged_store)) ''p1'' None (Some ''PASSWORD_LOGIN'') body_page1 =
      Inl (ApiError VALIDATION_ERROR)"
    using inst [where eventCode = "Some ''PASSWORD_LOGIN''" and e = "''PASSWORD_LOGIN''"
        and userId = None]
    by simp
  have w5: "getLogsByEventCode (validateLogInput EventCodes_demo)
      (queryLogs 50 (logs logged_store)) ''p1'' (Some ''LOGOUT'') body_page1 = Inr []"
    using inst [where eventCode = "Some ''LOGOUT''" and e = "''LOGOUT''"] paging codes
    by (simp add: rows l)
  have w6: "getLogsByUserId (validateLogInput EventCodes_demo)
      (queryLogs 50 (logs logged_store)) ''p1'' (Some ''u9'') body_page1 = Inr []"
    using inst [where reqUserId = "Some ''u9''" and u = "''u9''"] paging
    by (simp add: rows l)
  have w7: "getUserLogsByEventCode (validateLogInput EventCodes_demo)
      (queryLogs 50 (logs logged_store)) ''p1'' (Some ''u1'') (Some ''LOGOUT'') body_page1 =
      Inr []"
    using inst [where eventCode = "Some ''LOGOUT''" and e = "''LOGOUT''"
        and userId = "Some ''u1''" and u = "''u1''"] paging codes
    by (simp add: rows l)
  have w8: "getLogsByUserId (validateLogInput EventCodes_demo)
      (queryLogs 50 (logs logged_store)) ''p1'' (Some ''u1'') body_page1 =
      Inr [log_l1, log_l0]"
    by (simp add: getLogsByUserId_def validateLogInput_def queryLogs_def matchesQuery_def
        inRange_def body_page1_def validRange_def rows l)
  from w1 w2 w3 w4 w5 w6 w7 w8 show ?thesis by simp
qed

section \<open>Resetting an email template\<close>

text \<open>
  C9. For a template name of the enumeration and a project that exists,
  \<open>resetEmailTemplateToDefault\<close> succeeds, and in the store it leaves the project has no
  entry for this template name in \<open>config.emailTemplates\<close>, every other entry of that
  mapping as before, and \<open>config.loginMethods\<close>, \<open>config.security\<close> and every other field
  of the project record as before; every other project is found as before, no project is
  added or removed, and the other collections are unchanged.
\<close>

theorem resetEmailTemplateToDefault_frame:
  assumes "emailTemplate \<in> set names" and "Project_findById s projectId = Some p"
  shows "\<exists>s' p'. resetEmailTemplateToDefault names s projectId emailTemplate = Inr s'
    \<and> Project_findById s' projectId = Some p'
    \<and> emailTemplates (config p') emailTemplate = None
    \<and> (\<forall>k. k \<noteq> emailTemplate \<longrightarrow>
          emailTemplates (config p') k = emailTemplates (config p) k)
    \<and> loginMethods (config p') = loginMethods (config p)
    \<and> security (config p') = security (config p)
    \<and> project_id p' = project_id p \<and> projectName p' = projectName p
    \<and> owner p' = owner p \<and> appName p' = appName p \<and> appEmail p' = appEmail p
    \<and> projectKey p' = projectKey p
    \<and> (\<forall>q. q \<noteq> projectId \<longrightarrow> Project_findById s' q = Project_findById s q)
    \<and> length (projects s') = length (projects s)
    \<and> admins s' = admins s \<and> users s' = users s
    \<and> sessions s' = sessions s \<and> logs s' = logs s"
proof -
  define f where
    "f = (\<lambda>d::project. d\<lparr>config := (config d)\<lparr>emailTemplates :=
            (emailTemplates (config p))(emailTemplate := None)\<rparr>\<rparr>)"
  define s' where
    "s' = s\<lparr>projects := updateOne (\<lambda>d. project_id d = projectId) f (projects s)\<rparr>"
  have id: "project_id p = projectId"
    using assms(2) by (rule Project_findById_id)
  have keep: "project_id (f x) = project_id x" for x
    by (simp add: f_def)
  have run: "resetEmailTemplateToDefault names s projectId emailTemplate = Inr s'"
    using assms id by (simp add: resetEmailTemplateToDefault_def Let_def s'_def f_def)
  have found: "Project_findById s' projectId = Some (f p)"
    using assms(2) keep by (simp add: s'_def Project_findById_update)
  have others: "\<forall>q. q \<noteq> projectId \<longrightarrow> Project_findById s' q = Project_findById s q"
    using keep by (simp add: s'_def Project_findById_update)
  have len: "length (projects s') = length (projects s)"
    using map_updateOne_same [of "\<lambda>x. ()" f "\<lambda>d. project_id d = projectId" "projects s"]
    by (simp add: s'_def) (metis length_map)
  have frame: "admins s' = admins s \<and> users s' = users s
      \<and> sessions s' = sessions s \<and> logs s' = logs s"
    by (simp add: s'_def)
  have fields: "emailTemplates (config (f p)) emailTemplate = None
      \<and> (\<forall>k. k \<noteq> emailTemplate \<longrightarrow>
            emailTemplates (config (f p)) k = emailTemplates (config p) k)
      \<and> loginMethods (config (f p)) = loginMethods (config p)
      \<and> security (config (f p)) = security (config p)
      \<and> project_id (f p) = project_id p \<and> projectName (f p) = projectName p
      \<and> owner (f p) = owner p \<and> appName (f p) = appName p \<and> appEmail (f p) = appEmail p
      \<and> projectKey (f p) = projectKey p"
    by (simp add: f_def)
  from run found fields others len frame show ?thesis by blast
qed

theorem resetEmailTemplateToDefault_frame_witness:
  "''welcome'' \<in> set EmailTemplateNames_demo
   \<and> Project_findById two_tenants ''p1'' = Some project_p1
   \<and> emailTemplates (config project_p1) ''welcome'' = Some ''Hello''
   \<and> (\<exists>s' p'. resetEmailTemplateToDefault EmailTemplateNames_demo two_tenants ''p1''
                  ''welcome'' = Inr s'
        \<and> Project_findById s' ''p1'' = Some p'
        \<and> emailTemplates (config p') ''welcome'' = None
        \<and> emailTemplates (config p') ''resetPassword'' = Some ''Reset''
        \<and> security (config p') = \<lparr>userLimit = 20, userSessionLimit = 2\<rparr>
        \<and> projectKey p' = ''k1''
        \<and> Project_findById s' ''p2'' = Some project_p2
        \<and> users s' = [user_u1, user_u2])"
proof -
  have h1: "''welcome'' \<in> set EmailTemplateNames_demo"
    by (simp add: EmailTemplateNames_demo_def)
  have h2: "Project_findById two_tenants ''p1'' = Some project_p1"
    by (simp add: Project_findById_def two_tenants_def project_p1_def)
  have p2: "Project_findById two_tenants ''p2'' = Some project_p2"
    by (simp add: Project_findById_def two_tenants_def project_p1_def project_p2_def)
  have vals: "emailTemplates (config project_p1) ''welcome'' = Some ''Hello''"
    "emailTemplates (config project_p1) ''resetPassword'' = Some ''Reset''"
    "security (config project_p1) = \<lparr>userLimit = 20, userSessionLimit = 2\<rparr>"
    "projectKey project_p1 = ''k1''" "users two_tenants = [user_u1, user_u2]"
    by (simp_all add: project_p1_def config_p1_def two_tenants_def)
  have ne: "''resetPassword'' \<noteq> ''welcome''" "''p2'' \<noteq> ''p1''"
    by simp_all
  from resetEmailTemplateToDefault_frame [OF h1 h2]
  obtain s' p' where
    run: "resetEmailTemplateToDefault EmailTemplateNames_demo two_tenants ''p1'' ''welcome'' =
      Inr s'"
    and found: "Project_findById s' ''p1'' = Some p'"
    and gone: "emailTemplates (config p') ''welcome'' = None"
    and rest: "\<forall>k. k \<noteq> ''welcome'' \<longrightarrow>
      emailTemplates (config p') k = emailTemplates (config project_p1) k"
    and sec: "security (config p') = security (config project_p1)"
    and key: "projectKey p' = projectKey project_p1"
    and others: "\<forall>q. q \<noteq> ''p1'' \<longrightarrow> Project_findById s' q = Project_findById two_tenants q"
    and us: "users s' = users two_tenants"
    by (elim exE conjE)
  from rest ne have "emailTemplates (config p') ''resetPassword'' = Some ''Reset''"
    by (simp add: vals)
  moreover from others ne p2 have "Project_findById s' ''p2'' = Some project_p2"
    by simp
  ultimately show ?thesis
    using h1 h2 vals run found gone sec key us by auto
qed

section \<open>Reset handlers on an absent project\<close>

text \<open>
  C10. \<open>resetSecuritySettingToDefault\<close> and \<open>resetEmailTemplateToDefault\<close> (the latter
  for a template name of the enumeration, which is checked before the project is read)
  have no \<open>NOT_FOUND\<close> branch. When a project with the given id exists they succeed and
  store a security section of \<open>userLimit = 1000\<close> and \<open>userSessionLimit = 5\<close>, respectively
  the email templates without the given name. When no such project exists they fail with
  the \<open>TypeError\<close> of reading a property of \<open>null\<close>, which is not the structured
  \<open>NOT_FOUND\<close> error; neither handler ever fails with \<open>NOT_FOUND\<close>.
\<close>

theorem reset_handlers_dereference:
  "(Project_findById s projectId = Some p \<longrightarrow>
      (\<exists>s'. resetSecuritySettingToDefault s projectId = Inr s'
         \<and> Project_findById s' projectId =
             Some (p\<lparr>config := (config p)\<lparr>security :=
                       \<lparr>userLimit = 1000, userSessionLimit = 5\<rparr>\<rparr>\<rparr>)))
   \<and> (Project_findById s projectId = Some p \<and> emailTemplate \<in> set names \<longrightarrow>
      (\<exists>s'. resetEmailTemplateToDefault names s projectId emailTemplate = Inr s'
         \<and> Project_findById s' projectId =
             Some (p\<lparr>config := (config p)\<lparr>emailTemplates :=
                       (emailTemplates (config p))(emailTemplate := None)\<rparr>\<rparr>)))
   \<and> (Project_findById s projectId = None \<longrightarrow>
      resetSecuritySettingToDefault s projectId = Inl TypeError)
   \<and> (Project_findById s projectId = None \<and> emailTemplate \<in> set names \<longrightarrow>
      resetEmailTemplateToDefault names s projectId emailTemplate = Inl TypeError)
   \<and> resetSecuritySettingToDefault s projectId \<noteq> Inl (ApiError NOT_FOUND)
   \<and> resetEmailTemplateToDefault names s projectId emailTemplate \<noteq> Inl (ApiError NOT_FOUND)"
proof (intro conjI impI)
  assume h: "Project_findById s projectId = Some p"
  then have "project_id p = projectId"
    by (rule Project_findById_id)
  with h show "\<exists>s'. resetSecuritySettingToDefault s projectId = Inr s'
      \<and> Project_findById s' projectId =
          Some (p\<lparr>config := (config p)\<lparr>security :=
                    \<lparr>userLimit = 1000, userSessionLimit = 5\<rparr>\<rparr>\<rparr>)"
    by (simp add: resetSecuritySettingToDefault_def Project_findById_update)
next
  assume h: "Project_findById s projectId = Some p \<and> emailTemplate \<in> set names"
  then have "project_id p = projectId"
    by (blast dest: Project_findById_id)
  with h show "\<exists>s'. resetEmailTemplateToDefault names s projectId emailTemplate = Inr s'
      \<and> Project_findById s' projectId =
          Some (p\<lparr>config := (config p)\<lparr>emailTemplates :=
                    (emailTemplates (config p))(emailTemplate := None)\<rparr>\<rparr>)"
    by (simp add: resetEmailTemplateToDefault_def Let_def Project_findById_update)
next
  assume "Project_findById s projectId = None"
  then show "resetSecuritySettingToDefault s projectId = Inl TypeError"
    by (simp add: resetSecuritySettingToDefault_def)
next
  assume "Project_findById s projectId = None \<and> emailTemplate \<in> set names"
  then show "resetEmailTemplateToDefault names s projectId emailTemplate = Inl TypeError"
    by (simp add: resetEmailTemplateToDefault_def)
next
  show "resetSecuritySettingToDefault s projectId \<noteq> Inl (ApiError NOT_FOUND)"
    by (simp add: resetSecuritySettingToDefault_def split: option.splits)
next
  show "resetEmailTemplateToDefault names s projectId emailTemplate \<noteq> Inl (ApiError NOT_FOUND)"
    by (simp add: resetEmailTemplateToDefault_def Let_def split: option.splits)
qed

theorem reset_handlers_dereference_witness:
  "Project_findById two_tenants ''p1'' = Some project_p1
   \<and> Project_findById two_tenants ''p9'' = None
   \<and> ''welcome'' \<in> set EmailTemplateNames_demo
   \<and> (\<exists>s'. resetSecuritySettingToDefault two_tenants ''p1'' = Inr s'
         \<and> Project_findById s' ''p1'' =
             Some (project_p1\<lparr>config := (config project_p1)\<lparr>security :=
                     \<lparr>userLimit = 1000, userSessionLimit = 5\<rparr>\<rparr>\<rparr>))
   \<and> (\<exists>s'. resetEmailTemplateToDefault EmailTemplateNames_demo two_tenants ''p1''
               ''welcome'' = Inr s'
         \<and> Project_findById s' ''p1'' =
             Some (project_p1\<lparr>config := (config project_p1)\<lparr>emailTemplates :=
                     (emailTemplates (config project_p1))(''welcome'' := None)\<rparr>\<rparr>))
   \<and> resetSecuritySettingToDefault two_tenants ''p9'' = Inl TypeError
   \<and> resetEmailTemplateToDefault EmailTemplateNames_demo two_tenants ''p9'' ''welcome'' =
       Inl TypeError"
proof -
  have h1: "Project_findById two_tenants ''p1'' = Some project_p1"
    by (simp add: Project_findById_def two_tenants_def project_p1_def)
  have h9: "Project_findById two_tenants ''p9'' = None"
    by (simp add: Project_findById_def two_tenants_def project_p1_def project_p2_def)
  have n: "''welcome'' \<in> set EmailTemplateNames_demo"
    by (simp add: EmailTemplateNames_demo_def)
  note present = reset_handlers_dereference [where s = two_tenants and projectId = "''p1''"
      and p = project_p1 and emailTemplate = "''welcome''" and names = EmailTemplateNames_demo]
  note absent = reset_handlers_dereference [where s = two_tenants and projectId = "''p9''"
      and p = project_p1 and emailTemplate = "''welcome''" and names = EmailTemplateNames_demo]
  from present h1 n absent h9 show ?thesis by simp
qed

end
